theory Spec2Isabelle
  imports Main "HOL-Library.Word"
begin

section \<open>JavaScript strings\<close>

text \<open>
  A JavaScript string is a sequence of UTF-16 code units; \<open>length\<close>, \<open>slice\<close>,
  \<open>+\<close> and \<open>includes\<close> all work on code units. \<open>lit\<close> embeds an ASCII literal.
\<close>

type_synonym code_unit = "16 word"
type_synonym jsstring = "code_unit list"

definition lit :: "string \<Rightarrow> jsstring" where
  "lit s = map (\<lambda>c. of_nat (of_char c)) s"

text \<open>\<open>s.includes(sub)\<close>: \<open>sub\<close> occurs in \<open>s\<close> as a contiguous run.\<close>

fun includes_str :: "jsstring \<Rightarrow> jsstring \<Rightarrow> bool" where
  "includes_str [] sub = (sub = [])"
| "includes_str (x # xs) sub = (take (length sub) (x # xs) = sub \<or> includes_str xs sub)"

text \<open>\<open>n.toString()\<close> for an integral number: decimal digits, with a sign.\<close>

fun digits :: "nat \<Rightarrow> jsstring" where
  "digits n = (if n < 10 then [of_nat (48 + n)]
               else digits (n div 10) @ [of_nat (48 + n mod 10)])"

declare digits.simps [simp del]

definition toString :: "int \<Rightarrow> jsstring" where
  "toString n = (if n < 0 then lit ''-'' @ digits (nat (- n)) else digits (nat n))"

section \<open>Data model (types.ts)\<close>

datatype Role = User | Model

datatype GeminiModelId =
    Gemini_3_pro_preview
  | Gemini_2_0_pro_exp_02_05
  | Gemini_2_5_flash
  | Gemini_flash_lite_latest

datatype AttachmentType = Image | Audio | Pdf | Other

text \<open>
  A browser \<open>File\<close> handle, of which the code reads the MIME type only. A \<open>File\<close> has
  no enumerable properties of its own, so \<open>JSON.stringify\<close> writes it as \<open>{}\<close>, and
  what comes back from \<open>JSON.parse\<close> is a plain empty object.
\<close>

datatype File = File (file_type: jsstring) | PlainObject

record Attachment =
  a_file :: File
  a_previewUrl :: jsstring
  a_type :: AttachmentType
  a_base64 :: "jsstring option"

text \<open>
  Fields are prefixed by the record they belong to (\<open>m_\<close> for \<open>Message\<close>, \<open>s_\<close> for
  \<open>ChatSession\<close>), since both records have an \<open>id\<close>. An optional field (\<open>f?: T\<close>) is
  a \<open>T option\<close>, \<open>None\<close> being \<open>undefined\<close>.
\<close>

record Message =
  m_id :: jsstring
  m_role :: Role
  m_text :: jsstring
  m_isStreaming :: "bool option"
  m_error :: "bool option"
  m_isHidden :: "bool option"
  m_attachments :: "Attachment list option"
  m_modelId :: "GeminiModelId option"

record ChatSession =
  s_id :: jsstring
  s_title :: jsstring
  s_messages :: "Message list"
  s_updatedAt :: int
  s_lastModelId :: "GeminiModelId option"

record UserSettings =
  apiKey :: jsstring
  userName :: jsstring

section \<open>JSON documents\<close>

text \<open>
  The value a JSON text denotes. Numbers are the integral ones (all the numbers the
  application writes are \<open>Date.now()\<close> readings); an object is its list of entries,
  with distinct keys.
\<close>

datatype json =
    JNull
  | JBool bool
  | JNum int
  | JStr jsstring
  | JArr "json list"
  | JObj "(jsstring \<times> json) list"

text \<open>
  The content of a file or of a storage entry is a string, which either is the JSON text
  of a value or is no JSON text at all. \<open>JSON.parse\<close> throws on the latter (\<open>None\<close>).
\<close>

datatype content = NotJSON jsstring | JSONText json

fun JSON_parse :: "content \<Rightarrow> json option" where
  "JSON_parse (NotJSON _) = None"
| "JSON_parse (JSONText j) = Some j"

definition JSON_stringify :: "json \<Rightarrow> content" where
  "JSON_stringify j = JSONText j"

fun isArray :: "json \<Rightarrow> bool" where
  "isArray (JArr _) = True"
| "isArray _ = False"

subsection \<open>What \<open>JSON.stringify\<close> writes for the application's records\<close>

text \<open>
  A property whose value is \<open>undefined\<close> is left out. The entries are listed in the
  order of the interface declaration; the order in which the code's object literals and
  spreads create the properties can differ, the value denoted is the same.
\<close>

definition opt_entry :: "string \<Rightarrow> ('a \<Rightarrow> json) \<Rightarrow> 'a option \<Rightarrow> (jsstring \<times> json) list" where
  "opt_entry k enc v = (case v of None \<Rightarrow> [] | Some x \<Rightarrow> [(lit k, enc x)])"

fun Role_toJSON :: "Role \<Rightarrow> json" where
  "Role_toJSON User = JStr (lit ''user'')"
| "Role_toJSON Model = JStr (lit ''model'')"

fun GeminiModelId_toJSON :: "GeminiModelId \<Rightarrow> json" where
  "GeminiModelId_toJSON Gemini_3_pro_preview = JStr (lit ''gemini-3-pro-preview'')"
| "GeminiModelId_toJSON Gemini_2_0_pro_exp_02_05 = JStr (lit ''gemini-2.0-pro-exp-02-05'')"
| "GeminiModelId_toJSON Gemini_2_5_flash = JStr (lit ''gemini-2.5-flash'')"
| "GeminiModelId_toJSON Gemini_flash_lite_latest = JStr (lit ''gemini-flash-lite-latest'')"

fun AttachmentType_toJSON :: "AttachmentType \<Rightarrow> json" where
  "AttachmentType_toJSON Image = JStr (lit ''image'')"
| "AttachmentType_toJSON Audio = JStr (lit ''audio'')"
| "AttachmentType_toJSON Pdf = JStr (lit ''pdf'')"
| "AttachmentType_toJSON Other = JStr (lit ''other'')"

definition Attachment_toJSON :: "Attachment \<Rightarrow> json" where
  "Attachment_toJSON a =
     JObj ([(lit ''file'', JObj []),
            (lit ''previewUrl'', JStr (a_previewUrl a)),
            (lit ''type'', AttachmentType_toJSON (a_type a))]
           @ opt_entry ''base64'' JStr (a_base64 a))"

definition Message_entries :: "Message \<Rightarrow> (jsstring \<times> json) list" where
  "Message_entries m =
     [(lit ''id'', JStr (m_id m)),
      (lit ''role'', Role_toJSON (m_role m)),
      (lit ''text'', JStr (m_text m))]
     @ opt_entry ''isStreaming'' JBool (m_isStreaming m)
     @ opt_entry ''error'' JBool (m_error m)
     @ opt_entry ''isHidden'' JBool (m_isHidden m)
     @ opt_entry ''attachments'' (\<lambda>as. JArr (map Attachment_toJSON as)) (m_attachments m)
     @ opt_entry ''modelId'' GeminiModelId_toJSON (m_modelId m)"

definition Message_toJSON :: "Message \<Rightarrow> json" where
  "Message_toJSON m = JObj (Message_entries m)"

definition ChatSession_entries :: "ChatSession \<Rightarrow> (jsstring \<times> json) list" where
  "ChatSession_entries s =
     [(lit ''id'', JStr (s_id s)),
      (lit ''title'', JStr (s_title s)),
      (lit ''messages'', JArr (map Message_toJSON (s_messages s))),
      (lit ''updatedAt'', JNum (s_updatedAt s))]
     @ opt_entry ''lastModelId'' GeminiModelId_toJSON (s_lastModelId s)"

definition ChatSession_toJSON :: "ChatSession \<Rightarrow> json" where
  "ChatSession_toJSON s = JObj (ChatSession_entries s)"

definition sessions_toJSON :: "ChatSession list \<Rightarrow> json" where
  "sessions_toJSON ss = JArr (map ChatSession_toJSON ss)"

subsection \<open>Reading a parsed document as the application's records\<close>

text \<open>
  \<open>const parsed: ChatSession[] = JSON.parse(savedSessions)\<close> is an unchecked cast. The
  readers below give the records a document of the right shape denotes, reading each
  property by its key; a document of another shape has no typed reading (\<open>None\<close>).
\<close>

definition get_prop :: "(jsstring \<times> json) list \<Rightarrow> string \<Rightarrow> json option" where
  "get_prop kvs k = map_of kvs (lit k)"

definition opt_prop :: "(jsstring \<times> json) list \<Rightarrow> string \<Rightarrow> (json \<Rightarrow> 'a option) \<Rightarrow> 'a option option" where
  "opt_prop kvs k dec = (case get_prop kvs k of None \<Rightarrow> Some None
                         | Some j \<Rightarrow> (case dec j of None \<Rightarrow> None | Some x \<Rightarrow> Some (Some x)))"

fun str_ofJSON :: "json \<Rightarrow> jsstring option" where
  "str_ofJSON (JStr s) = Some s"
| "str_ofJSON _ = None"

fun bool_ofJSON :: "json \<Rightarrow> bool option" where
  "bool_ofJSON (JBool b) = Some b"
| "bool_ofJSON _ = None"

fun num_ofJSON :: "json \<Rightarrow> int option" where
  "num_ofJSON (JNum n) = Some n"
| "num_ofJSON _ = None"

definition Role_ofJSON :: "json \<Rightarrow> Role option" where
  "Role_ofJSON j = (if j = JStr (lit ''user'') then Some User
                    else if j = JStr (lit ''model'') then Some Model else None)"

definition GeminiModelId_ofJSON :: "json \<Rightarrow> GeminiModelId option" where
  "GeminiModelId_ofJSON j =
     (if j = JStr (lit ''gemini-3-pro-preview'') then Some Gemini_3_pro_preview
      else if j = JStr (lit ''gemini-2.0-pro-exp-02-05'') then Some Gemini_2_0_pro_exp_02_05
      else if j = JStr (lit ''gemini-2.5-flash'') then Some Gemini_2_5_flash
      else if j = JStr (lit ''gemini-flash-lite-latest'') then Some Gemini_flash_lite_latest
      else None)"

definition AttachmentType_ofJSON :: "json \<Rightarrow> AttachmentType option" where
  "AttachmentType_ofJSON j =
     (if j = JStr (lit ''image'') then Some Image
      else if j = JStr (lit ''audio'') then Some Audio
      else if j = JStr (lit ''pdf'') then Some Pdf
      else if j = JStr (lit ''other'') then Some Other
      else None)"

fun File_ofJSON :: "json \<Rightarrow> File option" where
  "File_ofJSON (JObj []) = Some PlainObject"
| "File_ofJSON _ = None"

fun Attachment_ofJSON :: "json \<Rightarrow> Attachment option" where
  "Attachment_ofJSON (JObj kvs) =
     (case (Option.bind (get_prop kvs ''file'') File_ofJSON,
            Option.bind (get_prop kvs ''previewUrl'') str_ofJSON,
            Option.bind (get_prop kvs ''type'') AttachmentType_ofJSON,
            opt_prop kvs ''base64'' str_ofJSON) of
        (Some f, Some u, Some t, Some b) \<Rightarrow>
          Some \<lparr>a_file = f, a_previewUrl = u, a_type = t, a_base64 = b\<rparr>
      | _ \<Rightarrow> None)"
| "Attachment_ofJSON _ = None"

fun Attachments_ofJSON :: "json \<Rightarrow> Attachment list option" where
  "Attachments_ofJSON (JArr xs) = those (map Attachment_ofJSON xs)"
| "Attachments_ofJSON _ = None"

fun Message_ofJSON :: "json \<Rightarrow> Message option" where
  "Message_ofJSON (JObj kvs) =
     (case (Option.bind (get_prop kvs ''id'') str_ofJSON,
            Option.bind (get_prop kvs ''role'') Role_ofJSON,
            Option.bind (get_prop kvs ''text'') str_ofJSON) of
        (Some i, Some r, Some t) \<Rightarrow>
          (case (opt_prop kvs ''isStreaming'' bool_ofJSON,
                 opt_prop kvs ''error'' bool_ofJSON,
                 opt_prop kvs ''isHidden'' bool_ofJSON,
                 opt_prop kvs ''attachments'' Attachments_ofJSON,
                 opt_prop kvs ''modelId'' GeminiModelId_ofJSON) of
             (Some st, Some e, Some h, Some as, Some mo) \<Rightarrow>
               Some \<lparr>m_id = i, m_role = r, m_text = t, m_isStreaming = st, m_error = e,
                     m_isHidden = h, m_attachments = as, m_modelId = mo\<rparr>
           | _ \<Rightarrow> None)
      | _ \<Rightarrow> None)"
| "Message_ofJSON _ = None"

fun Messages_ofJSON :: "json \<Rightarrow> Message list option" where
  "Messages_ofJSON (JArr xs) = those (map Message_ofJSON xs)"
| "Messages_ofJSON _ = None"

fun ChatSession_ofJSON :: "json \<Rightarrow> ChatSession option" where
  "ChatSession_ofJSON (JObj kvs) =
     (case (Option.bind (get_prop kvs ''id'') str_ofJSON,
            Option.bind (get_prop kvs ''title'') str_ofJSON,
            Option.bind (get_prop kvs ''messages'') Messages_ofJSON,
            Option.bind (get_prop kvs ''updatedAt'') num_ofJSON,
            opt_prop kvs ''lastModelId'' GeminiModelId_ofJSON) of
        (Some i, Some t, Some ms, Some u, Some l) \<Rightarrow>
          Some \<lparr>s_id = i, s_title = t, s_messages = ms, s_updatedAt = u, s_lastModelId = l\<rparr>
      | _ \<Rightarrow> None)"
| "ChatSession_ofJSON _ = None"

definition sessions_ofJSON :: "json list \<Rightarrow> ChatSession list option" where
  "sessions_ofJSON xs = those (map ChatSession_ofJSON xs)"

section \<open>Application state (App.tsx, services/gemini.ts)\<close>

text \<open>
  The handle \<open>ai.chats.create\<close> returns, and a call of its \<open>sendMessageStream\<close>: the
  only network activity of the application. The vendor SDK is outside the model; a call
  is recorded in \<open>network\<close>, and what the stream then yields arrives as events.
\<close>

record Chat =
  chat_model :: GeminiModelId
  chat_apiKey :: jsstring

datatype Part = TextPart jsstring | InlineData "jsstring option" jsstring

datatype Payload = PlainMessage jsstring | PartsMessage "Part list"

record Request =
  req_chat :: Chat
  req_message :: Payload

text \<open>A thrown value, of which the code reads \<open>message\<close> only.\<close>

record Error =
  e_message :: "jsstring option"

text \<open>
  The state of the page: the \<open>useState\<close> cells and the ref of \<open>App\<close>, the module-level
  variables of \<open>services/gemini.ts\<close> (\<open>chatSession\<close>, \<open>currentModelId\<close>,
  \<open>currentApiKey\<close>), and the browser around them: the \<open>ayat_chat_sessions\<close> entry of
  \<open>localStorage\<close> (\<open>None\<close> when absent; the storage quota is not modelled), the
  alerts shown, the number of \<open>window.location.reload()\<close> calls, the network calls.
  \<open>zoomLevel\<close> and \<open>isModelMenuOpen\<close> are presentation only and left out.
\<close>

record AppState =
  userSettings :: "UserSettings option"
  sessions :: "ChatSession list"
  currentSessionId :: "jsstring option"
  isLoading :: bool
  isSideMenuOpen :: bool
  selectedModel :: GeminiModelId
  stopGenerationRef :: bool
  chatSession :: "Chat option"
  currentModelId :: GeminiModelId
  currentApiKey :: jsstring
  localStorage_sessions :: "content option"
  alerts :: "jsstring list"
  reloads :: nat
  network :: "Request list"

text \<open>
  A handler is a closure of one render: the names \<open>sessions\<close>, \<open>currentSessionId\<close>,
  \<open>messages\<close>, \<open>selectedModel\<close> and \<open>userSettings\<close> in its body are the values of
  that render, whatever has been queued since. A state setter called with a function
  (\<open>setSessions(prev => ...)\<close>) is applied to the state pending at that point; called
  with a value, it replaces the cell. So every handler below takes the render \<open>r\<close> it
  closes over and the pending state \<open>st\<close>, reads the closure's names from \<open>r\<close>, and
  applies its updates to \<open>st\<close> in the order of the source. A user event runs the handler
  of the latest render (\<open>r = st\<close>); the continuation of \<open>handleSend\<close> after an
  \<open>await\<close> runs with the closure of the render that started it. Every \<open>Date.now()\<close>
  reading is a parameter.
\<close>

definition currentSession :: "AppState \<Rightarrow> ChatSession option" where
  "currentSession r =
     (case currentSessionId r of None \<Rightarrow> None
      | Some c \<Rightarrow> find (\<lambda>s. s_id s = c) (sessions r))"

definition messages :: "AppState \<Rightarrow> Message list" where
  "messages r = (case currentSession r of None \<Rightarrow> [] | Some s \<Rightarrow> s_messages s)"

definition DEFAULT_TITLE :: jsstring where
  "DEFAULT_TITLE =
     [0x645, 0x62D, 0x627, 0x62F, 0x62B, 0x629, 0x20, 0x62C, 0x62F, 0x64A, 0x62F, 0x629, 0x20]
     @ lit ''(New Chat)''"

subsection \<open>The completion client\<close>

definition resetChatSession :: "AppState \<Rightarrow> AppState" where
  "resetChatSession st = st\<lparr>chatSession := None\<rparr>"

definition getChatSession :: "GeminiModelId \<Rightarrow> jsstring \<Rightarrow> AppState \<Rightarrow> Chat \<times> AppState" where
  "getChatSession modelId key st =
     (case chatSession st of
        Some chat \<Rightarrow>
          if currentModelId st \<noteq> modelId \<or> currentApiKey st \<noteq> key
          then (let chat' = \<lparr>chat_model = modelId, chat_apiKey = key\<rparr>
                in (chat', st\<lparr>currentModelId := modelId, currentApiKey := key,
                               chatSession := Some chat'\<rparr>))
          else (chat, st)
      | None \<Rightarrow>
          (let chat' = \<lparr>chat_model = modelId, chat_apiKey = key\<rparr>
           in (chat', st\<lparr>currentModelId := modelId, currentApiKey := key,
                          chatSession := Some chat'\<rparr>)))"

definition attachmentPart :: "Attachment \<Rightarrow> Part" where
  "attachmentPart att =
     InlineData (case a_file att of File t \<Rightarrow> Some t | PlainObject \<Rightarrow> None)
                (case a_base64 att of None \<Rightarrow> [] | Some d \<Rightarrow> d)"

text \<open>
  \<open>sendMessageStream\<close> up to the call of the SDK: \<open>Inl\<close> is the error it throws, \<open>Inr\<close>
  the state after the request has been issued.
\<close>

definition sendMessageStream ::
  "jsstring \<Rightarrow> Attachment list \<Rightarrow> GeminiModelId \<Rightarrow> jsstring \<Rightarrow> AppState \<Rightarrow> Error + AppState" where
  "sendMessageStream message atts modelId key st =
     (if key = [] then Inl \<lparr>e_message = Some (lit ''API Key is required'')\<rparr>
      else
        (let (chat, st1) = getChatSession modelId key st;
             parts = (if atts \<noteq> [] then map attachmentPart atts @ [TextPart message]
                      else [TextPart message]);
             payload = (if length parts = 1 then PlainMessage message else PartsMessage parts)
         in Inr (st1\<lparr>network := network st1 @ [\<lparr>req_chat = chat, req_message = payload\<rparr>]\<rparr>)))"

subsection \<open>Session management\<close>

definition createNewSession :: "int \<Rightarrow> int \<Rightarrow> AppState \<Rightarrow> AppState" where
  "createNewSession now_id now_upd st =
     (let newSession = \<lparr>s_id = toString now_id, s_title = DEFAULT_TITLE, s_messages = [],
                         s_updatedAt = now_upd, s_lastModelId = None\<rparr>;
          st1 = st\<lparr>sessions := newSession # sessions st\<rparr>;
          st2 = st1\<lparr>currentSessionId := Some (s_id newSession)\<rparr>;
          st3 = resetChatSession st2
      in st3\<lparr>isSideMenuOpen := False\<rparr>)"

definition deleteSession :: "AppState \<Rightarrow> jsstring \<Rightarrow> int \<Rightarrow> int \<Rightarrow> AppState \<Rightarrow> AppState" where
  "deleteSession r ident now_id now_upd st =
     (let newSessions = filter (\<lambda>s. s_id s \<noteq> ident) (sessions r);
          st1 = st\<lparr>sessions := newSessions,
                   localStorage_sessions := Some (JSON_stringify (sessions_toJSON newSessions))\<rparr>
      in if currentSessionId r = Some ident
         then (if newSessions \<noteq> []
               then st1\<lparr>currentSessionId := Some (s_id (hd newSessions))\<rparr>
               else createNewSession now_id now_upd st1)
         else st1)"

definition updateSessionTitle :: "jsstring \<Rightarrow> jsstring \<Rightarrow> int \<Rightarrow> AppState \<Rightarrow> AppState" where
  "updateSessionTitle ident newTitle now st =
     st\<lparr>sessions := map (\<lambda>s. if s_id s = ident
                               then s\<lparr>s_title := newTitle, s_updatedAt := now\<rparr> else s)
                         (sessions st)\<rparr>"

text \<open>The title the updater of \<open>updateCurrentMessages\<close> gives the session it replaces.\<close>

definition derivedTitle :: "ChatSession \<Rightarrow> Message list \<Rightarrow> jsstring" where
  "derivedTitle s newMessages =
     (if s_messages s = [] \<and> newMessages \<noteq> [] \<and> includes_str (s_title s) (lit ''New Chat'')
      then (case find (\<lambda>m. m_role m = User) newMessages of
              Some firstMsg \<Rightarrow>
                take 30 (m_text firstMsg)
                @ (if length (m_text firstMsg) > 30 then lit ''...'' else [])
            | None \<Rightarrow> s_title s)
      else s_title s)"

text \<open>\<open>!currentSessionId\<close> holds of \<open>null\<close> and of the empty string.\<close>

definition updateCurrentMessages :: "AppState \<Rightarrow> Message list \<Rightarrow> int \<Rightarrow> AppState \<Rightarrow> AppState" where
  "updateCurrentMessages r newMessages now st =
     (case currentSessionId r of
        None \<Rightarrow> st
      | Some c \<Rightarrow>
          if c = [] then st
          else st\<lparr>sessions :=
                    map (\<lambda>s. if s_id s = c
                              then s\<lparr>s_messages := newMessages,
                                     s_title := derivedTitle s newMessages,
                                     s_updatedAt := now\<rparr>
                              else s)
                        (sessions st)\<rparr>)"

subsection \<open>Chat logic\<close>

text \<open>\<open>msg.isStreaming ? ... : ...\<close>: the field is set and true.\<close>

definition streaming :: "Message \<Rightarrow> bool" where
  "streaming msg = (m_isStreaming msg = Some True)"

definition handleStop :: "AppState \<Rightarrow> AppState \<Rightarrow> AppState" where
  "handleStop r st =
     (let st1 = st\<lparr>stopGenerationRef := True\<rparr>;
          st2 = st1\<lparr>isLoading := False\<rparr>
      in case currentSessionId r of
           None \<Rightarrow> st2
         | Some c \<Rightarrow>
             if c = [] then st2
             else st2\<lparr>sessions :=
                        map (\<lambda>s. if s_id s = c
                                  then s\<lparr>s_messages :=
                                           map (\<lambda>msg. if streaming msg
                                                       then msg\<lparr>m_isStreaming := Some False,
                                                                m_text := m_text msg @ lit ''...''\<rparr>
                                                       else msg)
                                               (s_messages s)\<rparr>
                                  else s)
                            (sessions st2)\<rparr>)"

text \<open>\<open>messages.filter((_, i) => i !== index)\<close>\<close>

definition handleDeleteMessage :: "AppState \<Rightarrow> nat \<Rightarrow> int \<Rightarrow> AppState \<Rightarrow> AppState" where
  "handleDeleteMessage r index now st =
     (let updated = take index (messages r) @ drop (Suc index) (messages r)
      in updateCurrentMessages r updated now st)"

text \<open>
  The second parameter of \<open>handleSend\<close> is \<open>Attachment[] | boolean\<close>, defaulting to
  \<open>[]\<close>.
\<close>

datatype SendArg = Files "Attachment list" | Flag bool

text \<open>The four \<open>Date.now()\<close> readings of one \<open>handleSend\<close>, in the order they are taken
  in the source text: the user message's id, the first updater's \<open>updatedAt\<close>, the
  placeholder's id (before the \<open>+ 1\<close>), the second updater's \<open>updatedAt\<close>.\<close>

record SendClock =
  now_userId :: int
  now_upd1 :: int
  now_botId :: int
  now_upd2 :: int

text \<open>
  What the continuation of \<open>handleSend\<close> after its first \<open>await\<close> still holds: the
  closure's \<open>currentSessionId\<close> and \<open>selectedModel\<close>, \<open>botMessageId\<close>, and the locals
  \<open>fullText\<close> and \<open>lastUpdateTime\<close> of the loop.
\<close>

record SendTask =
  t_currentSessionId :: "jsstring option"
  t_botMessageId :: jsstring
  t_selectedModel :: GeminiModelId
  t_fullText :: jsstring
  t_lastUpdateTime :: int

text \<open>
  The shape all four updaters of the continuation share: in the sessions whose id is the
  closure's \<open>currentSessionId\<close>, the messages whose id is \<open>botMessageId\<close> are replaced.
\<close>

definition patchBot :: "SendTask \<Rightarrow> (Message \<Rightarrow> Message) \<Rightarrow> ChatSession list \<Rightarrow> ChatSession list" where
  "patchBot task f prev =
     map (\<lambda>s. if Some (s_id s) = t_currentSessionId task
               then s\<lparr>s_messages := map (\<lambda>m. if m_id m = t_botMessageId task then f m else m)
                                        (s_messages s)\<rparr>
               else s)
         prev"

definition QUOTA_NOTICE :: jsstring where
  "QUOTA_NOTICE =
     [0x26A0, 0xFE0F] @ lit '' **High Traffic on Pro Model**'' @ [0x0A]
     @ lit ''Switching to **Gemini 2.5 Flash** for unlimited speed...'' @ [0x0A, 0x0A]
     @ lit ''(Please retry your last message)''"

text \<open>\<open>error.message?.includes('429') || ... || ...\<close>, as a truth value.\<close>

definition isQuotaError :: "Error \<Rightarrow> bool" where
  "isQuotaError err =
     (case e_message err of
        None \<Rightarrow> False
      | Some msg \<Rightarrow> includes_str msg (lit ''429'') \<or> includes_str msg (lit ''quota'')
                    \<or> includes_str msg (lit ''exhausted''))"

text \<open>The \<open>catch\<close> block, followed by \<open>finally\<close>.\<close>

definition handleSend_catch :: "SendTask \<Rightarrow> Error \<Rightarrow> AppState \<Rightarrow> AppState" where
  "handleSend_catch task err st =
     (let st1 =
        (if isQuotaError err \<and> t_selectedModel task = Gemini_3_pro_preview
         then (let st0 = st\<lparr>selectedModel := Gemini_2_5_flash\<rparr>
               in st0\<lparr>sessions :=
                        patchBot task (\<lambda>m. m\<lparr>m_text := QUOTA_NOTICE, m_error := Some True,
                                              m_isStreaming := Some False\<rparr>)
                                 (sessions st0)\<rparr>)
         else st\<lparr>sessions :=
                   patchBot task
                     (\<lambda>m. m\<lparr>m_text := m_text m @ [0x0A] @ lit ''(Connection Error: ''
                                        @ (case e_message err of
                                             None \<Rightarrow> lit ''Unknown''
                                           | Some msg \<Rightarrow> if msg = [] then lit ''Unknown'' else msg)
                                        @ lit '')'',
                             m_error := Some True, m_isStreaming := Some False\<rparr>)
                     (sessions st)\<rparr>)
      in st1\<lparr>isLoading := False\<rparr>)"

text \<open>The update after the loop (``Final update''), followed by \<open>finally\<close>.\<close>

definition handleSend_final :: "SendTask \<Rightarrow> AppState \<Rightarrow> AppState" where
  "handleSend_final task st =
     (let st1 = st\<lparr>sessions :=
                     patchBot task (\<lambda>m. m\<lparr>m_text := t_fullText task, m_isStreaming := Some False\<rparr>)
                              (sessions st)\<rparr>
      in st1\<lparr>isLoading := False\<rparr>)"

text \<open>
  One turn of \<open>for await (const chunk of streamResult)\<close> on a chunk with text
  \<open>chunkText\<close> (\<open>undefined\<close> is \<open>None\<close>) arriving at time \<open>now\<close>. The result holds the
  task while the loop goes on, and \<open>None\<close> once it was left by \<open>break\<close>.
\<close>

definition handleSend_chunk ::
  "SendTask \<Rightarrow> jsstring option \<Rightarrow> int \<Rightarrow> AppState \<Rightarrow> AppState \<times> SendTask option" where
  "handleSend_chunk task chunkText now st =
     (if stopGenerationRef st then (handleSend_final task st, None)
      else
        (let fullText = t_fullText task @ (case chunkText of None \<Rightarrow> [] | Some t \<Rightarrow> t);
             task1 = task\<lparr>t_fullText := fullText\<rparr>
         in if now - t_lastUpdateTime task > 50
            then (st\<lparr>sessions := patchBot task1 (\<lambda>m. m\<lparr>m_text := fullText\<rparr>) (sessions st)\<rparr>,
                  Some (task1\<lparr>t_lastUpdateTime := now\<rparr>))
            else (st, Some task1)))"

text \<open>
  The constants \<open>handleSend\<close> binds before its first \<open>await\<close>: \<open>hidden\<close>, \<open>files\<close>,
  \<open>userMessage\<close>, \<open>botMessageId\<close>, \<open>initialBotMessage\<close>, and what its continuation
  starts with.
\<close>

definition hidden :: "SendArg \<Rightarrow> bool" where
  "hidden attachments = (case attachments of Flag b \<Rightarrow> b | Files _ \<Rightarrow> False)"

definition files :: "SendArg \<Rightarrow> Attachment list" where
  "files attachments = (case attachments of Files fs \<Rightarrow> fs | Flag _ \<Rightarrow> [])"

definition userMessage :: "AppState \<Rightarrow> jsstring \<Rightarrow> SendArg \<Rightarrow> SendClock \<Rightarrow> Message" where
  "userMessage r text attachments clock =
     \<lparr>m_id = toString (now_userId clock), m_role = User, m_text = text,
      m_isStreaming = None, m_error = None, m_isHidden = Some (hidden attachments),
      m_attachments = Some (files attachments), m_modelId = Some (selectedModel r)\<rparr>"

definition botMessageId :: "SendClock \<Rightarrow> jsstring" where
  "botMessageId clock = toString (now_botId clock + 1)"

definition initialBotMessage :: "AppState \<Rightarrow> SendClock \<Rightarrow> Message" where
  "initialBotMessage r clock =
     \<lparr>m_id = botMessageId clock, m_role = Model, m_text = [],
      m_isStreaming = Some True, m_error = None, m_isHidden = None,
      m_attachments = None, m_modelId = Some (selectedModel r)\<rparr>"

definition initialTask :: "AppState \<Rightarrow> SendClock \<Rightarrow> SendTask" where
  "initialTask r clock =
     \<lparr>t_currentSessionId = currentSessionId r, t_botMessageId = botMessageId clock,
      t_selectedModel = selectedModel r, t_fullText = [], t_lastUpdateTime = 0\<rparr>"

text \<open>
  \<open>handleSend\<close> up to its first \<open>await\<close>. The result holds the task that waits for the
  stream, or \<open>None\<close> when the handler has returned (no credential) or has already run its
  \<open>catch\<close> block (\<open>sendMessageStream\<close> threw).
\<close>

definition handleSend ::
  "AppState \<Rightarrow> jsstring \<Rightarrow> SendArg \<Rightarrow> SendClock \<Rightarrow> AppState \<Rightarrow> AppState \<times> SendTask option" where
  "handleSend r text attachments clock st =
     (case userSettings r of
        None \<Rightarrow> (st, None)
      | Some us \<Rightarrow>
          if apiKey us = [] then (st, None)
          else
            (let st0 = st\<lparr>stopGenerationRef := False\<rparr>;
                 newMessagesWithUser = messages r @ [userMessage r text attachments clock];
                 st1 = updateCurrentMessages r newMessagesWithUser (now_upd1 clock) st0;
                 st2 = st1\<lparr>isLoading := True\<rparr>;
                 newMessagesWithBot = newMessagesWithUser @ [initialBotMessage r clock];
                 st3 = updateCurrentMessages r newMessagesWithBot (now_upd2 clock) st2
             in case sendMessageStream text (files attachments) (selectedModel r) (apiKey us) st3 of
                  Inl err \<Rightarrow> (handleSend_catch (initialTask r clock) err st3, None)
                | Inr st4 \<Rightarrow> (st4, Some (initialTask r clock))))"

text \<open>
  \<open>handleResend\<close>. With \<open>index\<close> out of range \<open>messages[index]\<close> is \<open>undefined\<close> and
  reading its \<open>text\<close> throws a \<open>TypeError\<close>, after the truncating updater was queued.
\<close>

datatype ResendResult = Resent AppState "SendTask option" | TypeError AppState

definition handleResend :: "AppState \<Rightarrow> nat \<Rightarrow> int \<Rightarrow> SendClock \<Rightarrow> AppState \<Rightarrow> ResendResult" where
  "handleResend r index now clock st =
     (let updated = take index (messages r);
          st1 = updateCurrentMessages r updated now st
      in if index < length (messages r)
         then (let msgToResend = messages r ! index;
                   (st2, task) = handleSend r (m_text msgToResend)
                                   (Files (case m_attachments msgToResend of
                                             None \<Rightarrow> [] | Some as \<Rightarrow> as))
                                   clock st1
               in Resent st2 task)
         else TypeError st1)"

subsection \<open>Persistence, export and import (App.tsx effects, SideMenu.tsx)\<close>

text \<open>Effect 3: runs after a render in which \<open>sessions\<close> has changed.\<close>

definition autoSave :: "AppState \<Rightarrow> AppState" where
  "autoSave st =
     (if sessions st \<noteq> []
      then st\<lparr>localStorage_sessions := Some (JSON_stringify (sessions_toJSON (sessions st)))\<rparr>
      else st)"

text \<open>
  \<open>parsed.sort((a, b) => b.updatedAt - a.updatedAt)\<close>: \<open>Array.prototype.sort\<close> is
  stable, and so is \<open>sort_key\<close>.
\<close>

definition sortByUpdatedAtDesc :: "ChatSession list \<Rightarrow> ChatSession list" where
  "sortByUpdatedAtDesc parsed = sort_key (\<lambda>s. - s_updatedAt s) parsed"

text \<open>
  Effect 2, on mount. A stored value that is no array has no \<open>sort\<close> method, which
  throws into the \<open>catch\<close>. The result is \<open>None\<close> when the stored array has no typed
  reading as \<open>ChatSession[]\<close>: the cast lets it through, and what the page then holds
  is outside this model.
\<close>

definition loadSessions :: "int \<Rightarrow> int \<Rightarrow> AppState \<Rightarrow> AppState option" where
  "loadSessions now_id now_upd st =
     (case localStorage_sessions st of
        None \<Rightarrow> Some (createNewSession now_id now_upd st)
      | Some savedSessions \<Rightarrow>
          (case JSON_parse savedSessions of
             None \<Rightarrow> Some (createNewSession now_id now_upd st)
           | Some (JArr xs) \<Rightarrow>
               (case sessions_ofJSON xs of
                  None \<Rightarrow> None
                | Some parsed \<Rightarrow>
                    (let sorted = sortByUpdatedAtDesc parsed;
                         st1 = st\<lparr>sessions := sorted\<rparr>
                     in if length sorted > 0
                        then Some (st1\<lparr>currentSessionId := Some (s_id (hd sorted))\<rparr>)
                        else Some (createNewSession now_id now_upd st1)))
           | Some _ \<Rightarrow> Some (createNewSession now_id now_upd st)))"

text \<open>
  \<open>window.location.reload()\<close>: the page starts again with the initial value of every
  \<open>useState\<close> cell, ref and module variable; \<open>localStorage\<close> stays. The settings are
  kept as they are: effect 1 restores them from their own storage entry, which is written
  whenever they are set.
\<close>

definition pageLoad :: "AppState \<Rightarrow> AppState" where
  "pageLoad st =
     st\<lparr>sessions := [], currentSessionId := None, isLoading := False,
        isSideMenuOpen := False, selectedModel := Gemini_3_pro_preview,
        stopGenerationRef := False, chatSession := None,
        currentModelId := Gemini_3_pro_preview, currentApiKey := []\<rparr>"

text \<open>\<open>handleExport\<close>: the content of the downloaded file.\<close>

definition handleExport :: "AppState \<Rightarrow> content" where
  "handleExport r = JSON_stringify (sessions_toJSON (sessions r))"

text \<open>
  \<open>handleImport\<close> with the content of the selected file (\<open>None\<close>: no file selected),
  through the \<open>onload\<close> callback of the reader.
\<close>

definition handleImport :: "content option \<Rightarrow> AppState \<Rightarrow> AppState" where
  "handleImport file st =
     (case file of
        None \<Rightarrow> st
      | Some content \<Rightarrow>
          (case JSON_parse content of
             None \<Rightarrow> st\<lparr>alerts := alerts st @ [lit ''Error reading file'']\<rparr>
           | Some parsed \<Rightarrow>
               if isArray parsed
               then (let st1 = st\<lparr>localStorage_sessions := Some (JSON_stringify parsed)\<rparr>
                     in st1\<lparr>reloads := Suc (reloads st1)\<rparr>)
               else st\<lparr>alerts := alerts st @ [lit ''Invalid JSON format'']\<rparr>))"

section \<open>The page as an event system\<close>

text \<open>
  The events of one page: the user's actions through the rendered controls, and what the
  stream of an unfinished \<open>handleSend\<close> delivers. A user event runs the handler of the
  latest render. \<open>tasks\<close> holds the continuation of every \<open>handleSend\<close> so far, \<open>None\<close>
  once it has finished; a stream event names its task by position. The model menu
  (\<open>SelectModel\<close>), like the session list and the buttons of the messages, stays usable
  while a send is under way; only the composer is disabled.
\<close>

datatype Event =
    NewSession int int
  | SelectSession jsstring
  | DeleteSession jsstring int int
  | EditTitle jsstring int
  | DeleteMessage nat int
  | Resend nat int SendClock
  | Send jsstring SendArg SendClock
  | Stop
  | StreamChunk nat "jsstring option" int
  | StreamEnd nat
  | StreamThrow nat Error
  | SelectModel GeminiModelId

record World =
  app :: AppState
  tasks :: "SendTask option list"

definition taskAt :: "World \<Rightarrow> nat \<Rightarrow> SendTask option" where
  "taskAt w k = (if k < length (tasks w) then tasks w ! k else None)"

fun step :: "Event \<Rightarrow> World \<Rightarrow> World" where
  "step (NewSession now_id now_upd) w =
     w\<lparr>app := autoSave (createNewSession now_id now_upd (app w))\<rparr>"
| "step (SelectSession ident) w =
     w\<lparr>app := (app w)\<lparr>currentSessionId := Some ident, isSideMenuOpen := False\<rparr>\<rparr>"
| "step (DeleteSession ident now_id now_upd) w =
     w\<lparr>app := autoSave (deleteSession (app w) ident now_id now_upd (app w))\<rparr>"
| "step (EditTitle newTitle now) w =
     (case currentSessionId (app w) of
        None \<Rightarrow> w
      | Some c \<Rightarrow> if c = [] then w
                  else w\<lparr>app := autoSave (updateSessionTitle c newTitle now (app w))\<rparr>)"
| "step (DeleteMessage index now) w =
     w\<lparr>app := autoSave (handleDeleteMessage (app w) index now (app w))\<rparr>"
| "step (Resend index now clock) w =
     (case handleResend (app w) index now clock (app w) of
        Resent st task \<Rightarrow> w\<lparr>app := autoSave st, tasks := tasks w @ [task]\<rparr>
      | TypeError st \<Rightarrow> w\<lparr>app := autoSave st\<rparr>)"
| "step (Send text attachments clock) w =
     (let (st, task) = handleSend (app w) text attachments clock (app w)
      in w\<lparr>app := autoSave st, tasks := tasks w @ [task]\<rparr>)"
| "step Stop w = w\<lparr>app := autoSave (handleStop (app w) (app w))\<rparr>"
| "step (StreamChunk k chunkText now) w =
     (case taskAt w k of
        None \<Rightarrow> w
      | Some task \<Rightarrow>
          (let (st, task') = handleSend_chunk task chunkText now (app w)
           in w\<lparr>app := autoSave st, tasks := (tasks w)[k := task']\<rparr>))"
| "step (StreamEnd k) w =
     (case taskAt w k of
        None \<Rightarrow> w
      | Some task \<Rightarrow>
          w\<lparr>app := autoSave (handleSend_final task (app w)), tasks := (tasks w)[k := None]\<rparr>)"
| "step (StreamThrow k err) w =
     (case taskAt w k of
        None \<Rightarrow> w
      | Some task \<Rightarrow>
          w\<lparr>app := autoSave (handleSend_catch task err (app w)), tasks := (tasks w)[k := None]\<rparr>)"
| "step (SelectModel modelId) w = w\<lparr>app := (app w)\<lparr>selectedModel := modelId\<rparr>\<rparr>"

fun run :: "Event list \<Rightarrow> World \<Rightarrow> World" where
  "run [] w = w"
| "run (ev # evs) w = run evs (step ev w)"

text \<open>
  The events that do not call \<open>handleSend\<close>, the one place where \<open>stopGenerationRef\<close>
  is set back to \<open>false\<close>.
\<close>

fun no_send :: "Event \<Rightarrow> bool" where
  "no_send (Send text attachments clock) = False"
| "no_send (Resend index now clock) = False"
| "no_send ev = True"

section \<open>Export, import and reload\<close>

text \<open>
  What a record is after \<open>JSON.stringify\<close> and \<open>JSON.parse\<close>: itself, with every
  \<open>File\<close> handle of an attachment turned into a plain empty object.
\<close>

definition Attachment_afterJSON :: "Attachment \<Rightarrow> Attachment" where
  "Attachment_afterJSON a = a\<lparr>a_file := PlainObject\<rparr>"

definition Message_afterJSON :: "Message \<Rightarrow> Message" where
  "Message_afterJSON m = m\<lparr>m_attachments := map_option (map Attachment_afterJSON) (m_attachments m)\<rparr>"

definition ChatSession_afterJSON :: "ChatSession \<Rightarrow> ChatSession" where
  "ChatSession_afterJSON s = s\<lparr>s_messages := map Message_afterJSON (s_messages s)\<rparr>"

text \<open>
  The file \<open>handleExport\<close> writes is selected in \<open>handleImport\<close>, and the page reloads
  and runs its mount effect; the ids of the sessions of a page, in list order.
\<close>

definition exportImportReload :: "int \<Rightarrow> int \<Rightarrow> AppState \<Rightarrow> AppState option" where
  "exportImportReload now_id now_upd st =
     loadSessions now_id now_upd (pageLoad (handleImport (Some (handleExport st)) st))"

definition session_ids :: "AppState \<Rightarrow> jsstring list" where
  "session_ids st = map s_id (sessions st)"

text \<open>
  What is compared of a session before and after: its id, and the ids and the texts of
  its messages, in message order.
\<close>

definition session_summary :: "ChatSession \<Rightarrow> jsstring \<times> jsstring list \<times> jsstring list" where
  "session_summary s = (s_id s, map m_id (s_messages s), map m_text (s_messages s))"


section \<open>The streaming invariant\<close>

text \<open>
  A session has at most one streaming message; every session of the page has. \<open>idle\<close>:
  no message of the active session is streaming. A run is guarded when every \<open>Send\<close>
  and \<open>Resend\<close> in it happens on an idle page.
\<close>

definition oneStreaming :: "ChatSession \<Rightarrow> bool" where
  "oneStreaming s = (length (filter streaming (s_messages s)) \<le> 1)"

definition atMostOneStreaming :: "AppState \<Rightarrow> bool" where
  "atMostOneStreaming st = list_all oneStreaming (sessions st)"




section \<open>Concrete states\<close>

text \<open>
  A page with a credential and nothing stored, before and after its first session is
  created at time 1000; a clock for a \<open>handleSend\<close> started at time \<open>t\<close>.
\<close>

definition example_settings :: UserSettings where
  "example_settings = \<lparr>apiKey = lit ''AIzaKey'', userName = lit ''Ann''\<rparr>"

definition blank_state :: AppState where
  "blank_state =
     \<lparr>userSettings = Some example_settings, sessions = [], currentSessionId = None,
      isLoading = False, isSideMenuOpen = False, selectedModel = Gemini_3_pro_preview,
      stopGenerationRef = False, chatSession = None,
      currentModelId = Gemini_3_pro_preview, currentApiKey = [],
      localStorage_sessions = None, alerts = [], reloads = 0, network = []\<rparr>"

definition fresh_state :: AppState where
  "fresh_state = createNewSession 1000 1000 blank_state"

definition example_clock :: "int \<Rightarrow> SendClock" where
  "example_clock t = \<lparr>now_userId = t, now_upd1 = t + 1, now_botId = t, now_upd2 = t + 1\<rparr>"

text \<open>Two user messages, the first of them hidden.\<close>

definition hidden_first :: "Message list" where
  "hidden_first =
     [\<lparr>m_id = lit ''1'', m_role = User, m_text = lit ''secret'', m_isStreaming = None,
       m_error = None, m_isHidden = Some True, m_attachments = Some [], m_modelId = None\<rparr>,
      \<lparr>m_id = lit ''2'', m_role = User, m_text = lit ''hello'', m_isStreaming = None,
       m_error = None, m_isHidden = Some False, m_attachments = Some [], m_modelId = None\<rparr>]"

text \<open>The page of \<open>fresh_state\<close>, with no \<open>handleSend\<close> under way.\<close>

definition fresh_world :: World where
  "fresh_world = \<lparr>app = fresh_state, tasks = []\<rparr>"

text \<open>
  Three sessions are created, in the order of their ids; the oldest is renamed at time
  4000, which sets its \<open>updatedAt\<close>; the middle one is selected.
\<close>

definition stale_order_events :: "Event list" where
  "stale_order_events =
     [NewSession 2000 2000, NewSession 3000 3000,
      SelectSession (lit ''1000''), EditTitle (lit ''old chat'') 4000,
      SelectSession (lit ''2000'')]"

text \<open>
  A send of \<open>hi\<close> at time 2000 on the fresh page; two chunks, the second within 50 ms of
  the first; then the user stops.
\<close>

definition stop_events :: "Event list" where
  "stop_events =
     [Send (lit ''hi'') (Files []) (example_clock 2000),
      StreamChunk 0 (Some (lit ''a'')) 2100,
      StreamChunk 0 (Some (lit ''b'')) 2110,
      Stop]"

text \<open>
  The same send, answered by one chunk and the end of the stream; then the user resends
  message 0.
\<close>

definition resend_events :: "Event list" where
  "resend_events =
     [Send (lit ''hi'') (Files []) (example_clock 2000),
      StreamChunk 0 (Some (lit ''a'')) 2100,
      StreamEnd 0,
      Resend 0 3000 (example_clock 3001)]"

text \<open>
  The state and the continuation right after a send of \<open>hi\<close> at time 2000 on the fresh
  page with \<open>model\<close> selected; a quota error; the page after a first chunk \<open>a\<close>.
\<close>

definition sending_state :: "GeminiModelId \<Rightarrow> AppState" where
  "sending_state model =
     fst (handleSend (fresh_state\<lparr>selectedModel := model\<rparr>) (lit ''hi'') (Files [])
            (example_clock 2000) (fresh_state\<lparr>selectedModel := model\<rparr>))"

definition sending_task :: "GeminiModelId \<Rightarrow> SendTask" where
  "sending_task model = initialTask (fresh_state\<lparr>selectedModel := model\<rparr>) (example_clock 2000)"

definition quota_error :: Error where
  "quota_error = \<lparr>e_message = Some (lit ''429 Too Many Requests'')\<rparr>"

definition streaming_world :: World where
  "streaming_world =
     run [Send (lit ''hi'') (Files []) (example_clock 2000),
          StreamChunk 0 (Some (lit ''a'')) 2100] fresh_world"


text \<open>
  A second session is created at time 2000; the first one is selected and renamed at time
  3000, which sets its \<open>updatedAt\<close> and leaves it second in the list.
\<close>

definition reorder_events :: "Event list" where
  "reorder_events =
     [NewSession 2000 2000, SelectSession (lit ''1000''), EditTitle (lit ''old chat'') 3000]"

text \<open>
  A page on which a hidden message gives the title. Two sends, the second one failing; a
  quiz requested through the button under the first answer, which sends a hidden
  message; the first three messages deleted, so that the failed answer comes first; the
  title edited to \<open>New Chat\<close>; the failed answer resent.
\<close>

definition connection_error :: Error where
  "connection_error = \<lparr>e_message = Some (lit ''Failed to fetch'')\<rparr>"

definition hidden_title_events :: "Event list" where
  "hidden_title_events =
     [Send (lit ''q1'') (Files []) (example_clock 2000),
      StreamChunk 0 (Some (lit ''a1'')) 2100,
      StreamEnd 0,
      Send (lit ''q2'') (Files []) (example_clock 3000),
      StreamThrow 1 connection_error,
      Send (lit ''Create a comprehensive interactive HTML quiz (QZ) about this topic'') (Flag True)
        (example_clock 4000),
      StreamEnd 2,
      DeleteMessage 0 5000, DeleteMessage 0 5001, DeleteMessage 0 5002,
      EditTitle (lit ''New Chat'') 5003,
      Resend 0 6000 (example_clock 6001)]"

text \<open>
  A send started with \<open>gemini-flash-lite-latest\<close> selected, after which the user selects
  \<open>gemini-3-pro-preview\<close> in the model menu; and a send started with
  \<open>gemini-3-pro-preview\<close> selected, after which the user selects
  \<open>gemini-flash-lite-latest\<close>. In both, the stream has not answered yet.
\<close>

definition late_pro_events :: "Event list" where
  "late_pro_events =
     [SelectModel Gemini_flash_lite_latest,
      Send (lit ''hi'') (Files []) (example_clock 2000),
      SelectModel Gemini_3_pro_preview]"

definition late_lite_events :: "Event list" where
  "late_lite_events =
     [Send (lit ''hi'') (Files []) (example_clock 2000),
      SelectModel Gemini_flash_lite_latest]"

text \<open>
  A chat with an answered message; a second chat created after it; the first chat selected
  again and renamed at time 6000, which leaves it second in the list.
\<close>

definition two_chats_events :: "Event list" where
  "two_chats_events =
     [Send (lit ''hi'') (Files []) (example_clock 2000),
      StreamChunk 0 (Some (lit ''a'')) 2100,
      StreamEnd 0,
      NewSession 5000 5000,
      SelectSession (lit ''1000''),
      EditTitle (lit ''first chat'') 6000]"

text \<open>
  The same two chats without the rename: the list is in descending order of \<open>updatedAt\<close>.
\<close>

definition sorted_chats_events :: "Event list" where
  "sorted_chats_events =
     [Send (lit ''hi'') (Files []) (example_clock 2000),
      StreamChunk 0 (Some (lit ''a'')) 2100,
      StreamEnd 0,
      NewSession 5000 5000]"


section \<open>Auxiliary facts\<close>

lemma sendMessageStream_key:
  "key \<noteq> [] \<Longrightarrow>
   \<exists>st'. sendMessageStream message atts modelId key st = Inr st' \<and> sessions st' = sessions st
     \<and> selectedModel st' = selectedModel st \<and> isLoading st' = isLoading st
     \<and> currentSessionId st' = currentSessionId st \<and> userSettings st' = userSettings st"
  by (simp add: sendMessageStream_def getChatSession_def Let_def split: option.splits)

lemma updateCurrentMessages_sessions:
  "currentSessionId r = Some c \<Longrightarrow> c \<noteq> [] \<Longrightarrow>
   sessions (updateCurrentMessages r ms now st) =
     map (\<lambda>s. if s_id s = c
               then s\<lparr>s_messages := ms, s_title := derivedTitle s ms, s_updatedAt := now\<rparr>
               else s)
         (sessions st)"
  by (simp add: updateCurrentMessages_def)

lemma derivedTitle_nonempty: "s_messages s \<noteq> [] \<Longrightarrow> derivedTitle s ms = s_title s"
  by (simp add: derivedTitle_def)

text \<open>What \<open>handleSend\<close> leaves in \<open>sessions\<close> when a credential and a session id are set.\<close>

lemma handleSend_sessions:
  assumes "userSettings r = Some us" "apiKey us \<noteq> []" "currentSessionId r = Some c" "c \<noteq> []"
  shows "sessions (fst (handleSend r text attachments clock st)) =
     map (\<lambda>s. if s_id s = c
               then s\<lparr>s_messages := messages r @ [userMessage r text attachments clock,
                                                     initialBotMessage r clock],
                       s_title := derivedTitle s (messages r @ [userMessage r text attachments clock]),
                       s_updatedAt := now_upd2 clock\<rparr>
               else s)
         (sessions st)"
proof -
  define st3 where
    "st3 = updateCurrentMessages r
             ((messages r @ [userMessage r text attachments clock]) @ [initialBotMessage r clock])
             (now_upd2 clock)
             ((updateCurrentMessages r (messages r @ [userMessage r text attachments clock])
                 (now_upd1 clock) (st\<lparr>stopGenerationRef := False\<rparr>))
              \<lparr>isLoading := True\<rparr>)"
  obtain st' where st':
    "sendMessageStream text (files attachments) (selectedModel r) (apiKey us) st3 = Inr st'"
    "sessions st' = sessions st3"
    using sendMessageStream_key [OF assms(2)] by blast
  have "sessions st3 =
     map (\<lambda>s. if s_id s = c
               then s\<lparr>s_messages := messages r @ [userMessage r text attachments clock,
                                                     initialBotMessage r clock],
                       s_title := derivedTitle s (messages r @ [userMessage r text attachments clock]),
                       s_updatedAt := now_upd2 clock\<rparr>
               else s)
         (sessions st)"
    unfolding st3_def using assms(3,4)
    by (simp add: updateCurrentMessages_sessions derivedTitle_nonempty o_def cong: if_cong)
  moreover have "fst (handleSend r text attachments clock st) = st'"
    using assms(1,2) st' by (simp add: handleSend_def Let_def st3_def)
  ultimately show ?thesis using st' by simp
qed

lemma fresh_state_simps:
  "userSettings fresh_state = Some example_settings"
  "currentSessionId fresh_state = Some (lit ''1000'')"
  "sessions fresh_state =
     [\<lparr>s_id = lit ''1000'', s_title = DEFAULT_TITLE, s_messages = [], s_updatedAt = 1000,
       s_lastModelId = None\<rparr>]"
  by (simp_all add: fresh_state_def blank_state_def createNewSession_def resetChatSession_def
        Let_def toString_def digits.simps lit_def)

lemma example_key: "apiKey example_settings \<noteq> []"
  by (simp add: example_settings_def lit_def)

lemma lit_1000: "lit ''1000'' \<noteq> []"
  by (simp add: lit_def)

lemma default_title_New_Chat: "includes_str DEFAULT_TITLE (lit ''New Chat'')"
  by (simp add: DEFAULT_TITLE_def lit_def)

lemma find_first:
  "\<forall>x\<in>set pre. \<not> P x \<Longrightarrow> P y \<Longrightarrow> find P (pre @ y # post) = Some y"
  by (induction pre) simp_all

lemmas eval_defs = fresh_world_def fresh_state_def blank_state_def example_settings_def
  createNewSession_def resetChatSession_def deleteSession_def updateSessionTitle_def
  autoSave_def toString_def digits.simps lit_def Let_def

lemma stale_order_state:
  "currentSessionId (app (run stale_order_events fresh_world)) = Some (lit ''2000'')"
  "map s_id (sessions (app (run stale_order_events fresh_world)))
     = [lit ''3000'', lit ''2000'', lit ''1000'']"
  "map s_updatedAt (sessions (app (run stale_order_events fresh_world))) = [3000, 2000, 4000]"
  by (simp_all add: stale_order_events_def eval_defs)

lemma sorted_hd_max:
  "sorted (map f xs) \<Longrightarrow> x \<in> set xs \<Longrightarrow> f (hd xs) \<le> f x"
  by (cases xs) auto

lemmas chat_defs = handleSend_def updateCurrentMessages_def derivedTitle_def messages_def
  currentSession_def userMessage_def initialBotMessage_def botMessageId_def initialTask_def
  hidden_def files_def sendMessageStream_def getChatSession_def handleSend_chunk_def
  handleSend_final_def handleSend_catch_def patchBot_def handleStop_def streaming_def
  handleResend_def taskAt_def example_clock_def DEFAULT_TITLE_def

lemma sending_state_simps:
  "sessions (sending_state model) =
     [\<lparr>s_id = lit ''1000'', s_title = lit ''hi'',
       s_messages =
         [\<lparr>m_id = lit ''2000'', m_role = User, m_text = lit ''hi'', m_isStreaming = None,
           m_error = None, m_isHidden = Some False, m_attachments = Some [],
           m_modelId = Some model\<rparr>,
          \<lparr>m_id = lit ''2001'', m_role = Model, m_text = [], m_isStreaming = Some True,
           m_error = None, m_isHidden = None, m_attachments = None, m_modelId = Some model\<rparr>],
       s_updatedAt = 2001, s_lastModelId = None\<rparr>]"
  "currentSessionId (sending_state model) = Some (lit ''1000'')"
  "selectedModel (sending_state model) = model"
  by (simp_all add: sending_state_def eval_defs chat_defs)


lemma streaming_world_simps:
  "map m_text (s_messages (sessions (app streaming_world) ! 0)) = [lit ''hi'', lit ''a'']"
  "map m_isStreaming (s_messages (sessions (app streaming_world) ! 0)) = [None, Some True]"
  "map s_id (sessions (app streaming_world)) = [lit ''1000'']"
  "currentSessionId (app streaming_world) = Some (lit ''1000'')"
  by (simp_all add: streaming_world_def eval_defs chat_defs)

lemma length_patchBot [simp]: "length (patchBot task f prev) = length prev"
  by (simp add: patchBot_def)

lemma patchBot_nth:
  "j < length prev \<Longrightarrow>
   patchBot task f prev ! j =
     (if Some (s_id (prev ! j)) = t_currentSessionId task
      then (prev ! j)\<lparr>s_messages := map (\<lambda>m. if m_id m = t_botMessageId task then f m else m)
                                        (s_messages (prev ! j))\<rparr>
      else prev ! j)"
  by (simp add: patchBot_def)

lemma patchBot_message:
  assumes "j < length prev" and "i < length (s_messages (prev ! j))"
  shows "s_messages (patchBot task f prev ! j) ! i =
     (if Some (s_id (prev ! j)) = t_currentSessionId task
         \<and> m_id (s_messages (prev ! j) ! i) = t_botMessageId task
      then f (s_messages (prev ! j) ! i) else s_messages (prev ! j) ! i)"
  using assms by (simp add: patchBot_nth)

lemma includes_str_nonempty: "includes_str s sub \<Longrightarrow> sub \<noteq> [] \<Longrightarrow> s \<noteq> []"
  by (cases s) auto

lemma quota_words_nonempty:
  "lit ''429'' \<noteq> []" "lit ''quota'' \<noteq> []" "lit ''exhausted'' \<noteq> []"
  by (simp_all add: lit_def)

lemma patchBot_keeps_finished:
  assumes "\<And>m. m_isStreaming m = Some False \<Longrightarrow> m_isStreaming (f m) = Some False"
    and "j < length prev" and "i < length (s_messages (prev ! j))"
    and "m_isStreaming (s_messages (prev ! j) ! i) = Some False"
  shows "m_isStreaming (s_messages (patchBot task f prev ! j) ! i) = Some False"
  using assms by (simp add: patchBot_message)

lemma final_keeps_finished:
  assumes "j < length (sessions st)" and "i < length (s_messages (sessions st ! j))"
    and "m_isStreaming (s_messages (sessions st ! j) ! i) = Some False"
  shows "m_isStreaming (s_messages (sessions (handleSend_final task st) ! j) ! i) = Some False"
  using assms by (simp add: handleSend_final_def Let_def patchBot_keeps_finished)

lemma catch_keeps_finished:
  assumes "j < length (sessions st)" and "i < length (s_messages (sessions st ! j))"
    and "m_isStreaming (s_messages (sessions st ! j) ! i) = Some False"
  shows "m_isStreaming (s_messages (sessions (handleSend_catch task err st) ! j) ! i) = Some False"
  using assms by (simp add: handleSend_catch_def Let_def patchBot_keeps_finished)

lemma handleStop_sessions:
  "currentSessionId r = Some c \<Longrightarrow> c \<noteq> [] \<Longrightarrow>
   sessions (handleStop r st) =
     map (\<lambda>s. if s_id s = c
               then s\<lparr>s_messages :=
                        map (\<lambda>msg. if streaming msg
                                    then msg\<lparr>m_isStreaming := Some False,
                                             m_text := m_text msg @ lit ''...''\<rparr>
                                    else msg)
                            (s_messages s)\<rparr>
               else s)
         (sessions st)"
  by (simp add: handleStop_def Let_def)

lemma handleStop_flags:
  "stopGenerationRef (handleStop r st)" "\<not> isLoading (handleStop r st)"
  by (simp_all add: handleStop_def Let_def split: option.splits)

lemma atMostOneStreaming_cong:
  "sessions st' = sessions st \<Longrightarrow> atMostOneStreaming st' = atMostOneStreaming st"
  by (simp add: atMostOneStreaming_def)

lemma autoSave_inv [simp]: "atMostOneStreaming (autoSave st) = atMostOneStreaming st"
  by (rule atMostOneStreaming_cong) (simp add: autoSave_def)





















lemma those_map_Some:
  "(\<And>x. x \<in> set xs \<Longrightarrow> f x = Some (g x)) \<Longrightarrow> those (map f xs) = Some (map g xs)"
  by (induction xs) simp_all

lemma get_prop_simps:
  "get_prop [] k = None"
  "get_prop ((key, v) # kvs) k = (if key = lit k then Some v else get_prop kvs k)"
  "get_prop (opt_entry k' enc x @ kvs) k =
     (if lit k' = lit k then (case x of None \<Rightarrow> get_prop kvs k | Some y \<Rightarrow> Some (enc y))
      else get_prop kvs k)"
  "get_prop (opt_entry k' enc x) k = (if lit k' = lit k then map_option enc x else None)"
  by (simp_all add: get_prop_def opt_entry_def split: option.splits)

lemma opt_prop_found:
  "get_prop kvs k = map_option enc v \<Longrightarrow> (\<And>x. v = Some x \<Longrightarrow> dec (enc x) = Some (g x)) \<Longrightarrow>
   opt_prop kvs k dec = Some (map_option g v)"
  by (cases v) (simp_all add: opt_prop_def)

lemma Role_roundtrip: "Role_ofJSON (Role_toJSON r) = Some r"
  by (cases r) (simp_all add: Role_ofJSON_def lit_def)

lemma GeminiModelId_roundtrip: "GeminiModelId_ofJSON (GeminiModelId_toJSON g) = Some g"
  by (cases g) (simp_all add: GeminiModelId_ofJSON_def lit_def)

lemma Attachment_roundtrip:
  "Attachment_ofJSON (Attachment_toJSON a) = Some (Attachment_afterJSON a)"
  by (cases "a_type a"; cases "a_base64 a")
     (simp_all add: Attachment_toJSON_def Attachment_afterJSON_def get_prop_def opt_prop_def
        opt_entry_def AttachmentType_ofJSON_def lit_def)

lemma Attachments_roundtrip:
  "Attachments_ofJSON (JArr (map Attachment_toJSON as)) = Some (map Attachment_afterJSON as)"
  by (simp add: o_def those_map_Some Attachment_roundtrip)

lemma Message_props:
  "get_prop (Message_entries m) ''id'' = Some (JStr (m_id m))"
  "get_prop (Message_entries m) ''role'' = Some (Role_toJSON (m_role m))"
  "get_prop (Message_entries m) ''text'' = Some (JStr (m_text m))"
  "get_prop (Message_entries m) ''isStreaming'' = map_option JBool (m_isStreaming m)"
  "get_prop (Message_entries m) ''error'' = map_option JBool (m_error m)"
  "get_prop (Message_entries m) ''isHidden'' = map_option JBool (m_isHidden m)"
  "get_prop (Message_entries m) ''attachments''
     = map_option (\<lambda>as. JArr (map Attachment_toJSON as)) (m_attachments m)"
  "get_prop (Message_entries m) ''modelId'' = map_option GeminiModelId_toJSON (m_modelId m)"
  by (simp_all add: Message_entries_def get_prop_simps lit_def split: option.splits)

lemma Message_roundtrip: "Message_ofJSON (Message_toJSON m) = Some (Message_afterJSON m)"
proof -
  have 1: "opt_prop (Message_entries m) ''isStreaming'' bool_ofJSON = Some (m_isStreaming m)"
    using opt_prop_found [OF Message_props(4), where dec = bool_ofJSON and g = "\<lambda>x. x"] by (simp add: option.map_ident)
  have 2: "opt_prop (Message_entries m) ''error'' bool_ofJSON = Some (m_error m)"
    using opt_prop_found [OF Message_props(5), where dec = bool_ofJSON and g = "\<lambda>x. x"] by (simp add: option.map_ident)
  have 3: "opt_prop (Message_entries m) ''isHidden'' bool_ofJSON = Some (m_isHidden m)"
    using opt_prop_found [OF Message_props(6), where dec = bool_ofJSON and g = "\<lambda>x. x"] by (simp add: option.map_ident)
  have 4: "opt_prop (Message_entries m) ''attachments'' Attachments_ofJSON
             = Some (map_option (map Attachment_afterJSON) (m_attachments m))"
    by (rule opt_prop_found [OF Message_props(7)]) (rule Attachments_roundtrip)
  have 5: "opt_prop (Message_entries m) ''modelId'' GeminiModelId_ofJSON = Some (m_modelId m)"
    using opt_prop_found [OF Message_props(8), where dec = GeminiModelId_ofJSON and g = "\<lambda>x. x"]
    by (simp add: option.map_ident GeminiModelId_roundtrip)
  show ?thesis
    by (simp add: Message_toJSON_def Message_props(1-3) 1 2 3 4 5 Role_roundtrip Message_afterJSON_def)
qed

lemma ChatSession_props:
  "get_prop (ChatSession_entries s) ''id'' = Some (JStr (s_id s))"
  "get_prop (ChatSession_entries s) ''title'' = Some (JStr (s_title s))"
  "get_prop (ChatSession_entries s) ''messages'' = Some (JArr (map Message_toJSON (s_messages s)))"
  "get_prop (ChatSession_entries s) ''updatedAt'' = Some (JNum (s_updatedAt s))"
  "get_prop (ChatSession_entries s) ''lastModelId'' = map_option GeminiModelId_toJSON (s_lastModelId s)"
  by (simp_all add: ChatSession_entries_def get_prop_simps lit_def split: option.splits)

lemma ChatSession_roundtrip:
  "ChatSession_ofJSON (ChatSession_toJSON s) = Some (ChatSession_afterJSON s)"
proof -
  have 5: "opt_prop (ChatSession_entries s) ''lastModelId'' GeminiModelId_ofJSON = Some (s_lastModelId s)"
    using opt_prop_found [OF ChatSession_props(5), where dec = GeminiModelId_ofJSON and g = "\<lambda>x. x"]
    by (simp add: option.map_ident GeminiModelId_roundtrip)
  have ms: "those (map (Message_ofJSON \<circ> Message_toJSON) (s_messages s))
              = Some (map Message_afterJSON (s_messages s))"
    by (simp add: those_map_Some Message_roundtrip)
  show ?thesis
    by (simp add: ChatSession_toJSON_def ChatSession_props(1-4) 5 ms ChatSession_afterJSON_def)
qed

lemma sessions_roundtrip:
  "sessions_ofJSON (map ChatSession_toJSON ss) = Some (map ChatSession_afterJSON ss)"
  by (simp add: sessions_ofJSON_def o_def those_map_Some ChatSession_roundtrip)

lemma insort_key_map:
  "insort_key f (g x) (map g xs) = map g (insort_key (\<lambda>y. f (g y)) x xs)"
  by (induction xs) simp_all

lemma sort_key_map: "sort_key f (map g xs) = map g (sort_key (\<lambda>y. f (g y)) xs)"
  by (induction xs) (simp_all add: insort_key_map)

lemma sort_afterJSON:
  "sortByUpdatedAtDesc (map ChatSession_afterJSON ss) = map ChatSession_afterJSON (sortByUpdatedAtDesc ss)"
  by (simp add: sortByUpdatedAtDesc_def sort_key_map ChatSession_afterJSON_def)

lemma sort_nonempty: "ss \<noteq> [] \<Longrightarrow> sortByUpdatedAtDesc ss \<noteq> []"
  by (metis length_sort length_0_conv sortByUpdatedAtDesc_def)

lemma exportImportReload_sessions:
  assumes "sessions st \<noteq> []"
  shows "\<exists>st'. exportImportReload now_id now_upd st = Some st'
           \<and> sessions st' = map ChatSession_afterJSON (sortByUpdatedAtDesc (sessions st))"
  using sort_nonempty [OF assms]
  by (simp add: exportImportReload_def handleExport_def handleImport_def JSON_stringify_def
        sessions_toJSON_def pageLoad_def loadSessions_def sessions_roundtrip sort_afterJSON
        Let_def)

lemma afterJSON_fields:
  "s_id (ChatSession_afterJSON s) = s_id s"
  "s_updatedAt (ChatSession_afterJSON s) = s_updatedAt s"
  "map m_id (s_messages (ChatSession_afterJSON s)) = map m_id (s_messages s)"
  "map m_text (s_messages (ChatSession_afterJSON s)) = map m_text (s_messages s)"
  by (simp_all add: ChatSession_afterJSON_def Message_afterJSON_def o_def)

lemma reorder_state:
  "sessions (app (run reorder_events fresh_world)) =
     [\<lparr>s_id = lit ''2000'', s_title = DEFAULT_TITLE, s_messages = [], s_updatedAt = 2000,
       s_lastModelId = None\<rparr>,
      \<lparr>s_id = lit ''1000'', s_title = lit ''old chat'', s_messages = [], s_updatedAt = 3000,
       s_lastModelId = None\<rparr>]"
  by (simp add: reorder_events_def eval_defs)

text \<open>
  The resend empties the session and then writes the messages of the render, in which the
  first message of role \<open>user\<close> is the hidden quiz request.
\<close>

lemma hidden_title_run:
  "map s_title (sessions (app (run hidden_title_events fresh_world)))
     = [lit ''Create a comprehensive interac...'']
   \<and> map m_isHidden (messages (app (run hidden_title_events fresh_world)))
     = [None, Some True, None, Some False, None]
   \<and> map m_role (messages (app (run hidden_title_events fresh_world)))
     = [Model, User, Model, User, Model]"
  by (simp add: hidden_title_events_def connection_error_def eval_defs chat_defs handleDeleteMessage_def isQuotaError_def)

text \<open>
  What \<open>handleResend\<close> leaves in the active session, whatever the index: the messages
  of the render, all of them, followed by the new user message and its placeholder.
\<close>

lemma handleResend_sessions:
  assumes "userSettings st = Some us" and "apiKey us \<noteq> []"
    and "currentSessionId st = Some c" and "c \<noteq> []"
    and "index < length (messages st)"
    and "handleResend st index now clock st = Resent st' task"
    and "s \<in> set (sessions st')" and "s_id s = c"
  shows "\<exists>u b. s_messages s = messages st @ [u, b]
           \<and> m_role u = User \<and> m_text u = m_text (messages st ! index) \<and> streaming b"
proof -
  let ?arg = "Files (case m_attachments (messages st ! index) of None \<Rightarrow> [] | Some as \<Rightarrow> as)"
  let ?u = "userMessage st (m_text (messages st ! index)) ?arg clock"
  let ?b = "initialBotMessage st clock"
  let ?st1 = "updateCurrentMessages st (take index (messages st)) now st"
  have "st' = fst (handleSend st (m_text (messages st ! index)) ?arg clock ?st1)"
    using assms(5,6) by (simp add: handleResend_def Let_def split: prod.splits)
  then have "s \<in> (\<lambda>s. if s_id s = c
               then s\<lparr>s_messages := messages st @ [?u, ?b],
                       s_title := derivedTitle s (messages st @ [?u]),
                       s_updatedAt := now_upd2 clock\<rparr>
               else s) ` set (sessions ?st1)"
    using assms(7) handleSend_sessions [OF assms(1-4), of _ ?arg clock ?st1] by simp
  then obtain s0 where s0: "s = (if s_id s0 = c
               then s0\<lparr>s_messages := messages st @ [?u, ?b],
                       s_title := derivedTitle s0 (messages st @ [?u]),
                       s_updatedAt := now_upd2 clock\<rparr>
               else s0)"
    by blast
  have "s_messages s = messages st @ [?u, ?b]"
  proof (cases "s_id s0 = c")
    case True
    with s0 show ?thesis by simp
  next
    case False
    with s0 assms(8) show ?thesis by simp
  qed
  moreover have "m_role ?u = User" "m_text ?u = m_text (messages st ! index)" "streaming ?b"
    by (simp_all add: userMessage_def initialBotMessage_def streaming_def)
  ultimately show ?thesis by blast
qed

lemma handleSend_task:
  "snd (handleSend r text attachments clock st0) = Some task0 \<Longrightarrow> task0 = initialTask r clock"
  by (auto simp add: handleSend_def Let_def split: option.splits if_splits sum.splits)

lemma handleSend_chunk_task:
  "handleSend_chunk (task0\<lparr>t_fullText := ft, t_lastUpdateTime := lu\<rparr>) chunkText now st = (st2, Some task2)
   \<Longrightarrow> task2 = task0\<lparr>t_fullText := t_fullText task2, t_lastUpdateTime := t_lastUpdateTime task2\<rparr>"
  by (auto simp add: handleSend_chunk_def Let_def split: if_splits)

lemma sending_snd:
  "snd (handleSend (fresh_state\<lparr>selectedModel := model\<rparr>) (lit ''hi'') (Files [])
          (example_clock 2000) (fresh_state\<lparr>selectedModel := model\<rparr>)) = Some (sending_task model)"
  by (simp add: sending_task_def eval_defs chat_defs)

lemma autoSave_fields:
  "sessions (autoSave st) = sessions st"
  "stopGenerationRef (autoSave st) = stopGenerationRef st"
  by (simp_all add: autoSave_def)

lemma step_keeps_flag:
  assumes "stopGenerationRef (app w)" and "no_send ev"
  shows "stopGenerationRef (app (step ev w))"
proof (cases ev)
  case (NewSession now_id now_upd)
  then show ?thesis using assms(1) by (simp add: autoSave_fields createNewSession_def resetChatSession_def Let_def)
next
  case (SelectSession ident)
  then show ?thesis using assms(1) by (simp add: autoSave_fields)
next
  case (DeleteSession ident now_id now_upd)
  then show ?thesis
    using assms(1) by (simp add: autoSave_fields deleteSession_def createNewSession_def resetChatSession_def Let_def)
next
  case (EditTitle newTitle now)
  then show ?thesis using assms(1) by (simp add: autoSave_fields updateSessionTitle_def split: option.splits)
next
  case (DeleteMessage index now)
  then show ?thesis
    using assms(1)
    by (simp add: autoSave_fields handleDeleteMessage_def updateCurrentMessages_def Let_def split: option.splits)
next
  case (Resend index now clock)
  then show ?thesis using assms(2) by simp
next
  case (Send msg attachments clock)
  then show ?thesis using assms(2) by simp
next
  case Stop
  then show ?thesis by (simp add: autoSave_fields handleStop_flags)
next
  case (StreamChunk k chunkText now)
  then show ?thesis
    using assms(1)
    by (simp add: autoSave_fields handleSend_chunk_def handleSend_final_def Let_def split: option.splits)
next
  case (StreamEnd k)
  then show ?thesis using assms(1) by (simp add: autoSave_fields handleSend_final_def Let_def split: option.splits)
next
  case (StreamThrow k err)
  then show ?thesis using assms(1) by (simp add: autoSave_fields handleSend_catch_def Let_def split: option.splits)
next
  case (SelectModel modelId)
  then show ?thesis using assms(1) by (simp add: autoSave_fields)
qed

lemma run_keeps_flag:
  "stopGenerationRef (app w) \<Longrightarrow> list_all no_send evs \<Longrightarrow> stopGenerationRef (app (run evs w))"
  by (induction evs arbitrary: w) (simp_all add: autoSave_fields step_keeps_flag)

lemma chunk_ends_loop:
  assumes "stopGenerationRef (app w)"
  shows "taskAt (step (StreamChunk k chunkText now) w) k = None"
proof (cases "taskAt w k")
  case None
  then show ?thesis by simp
next
  case (Some task)
  then have "k < length (tasks w)" by (simp add: autoSave_fields taskAt_def split: if_splits)
  with Some assms show ?thesis by (simp add: autoSave_fields handleSend_chunk_def taskAt_def)
qed

lemma chunk_keeps_finished:
  assumes "j < length (sessions st)" and "i < length (s_messages (sessions st ! j))"
    and "m_isStreaming (s_messages (sessions st ! j) ! i) = Some False"
  shows "m_isStreaming (s_messages (sessions (fst (handleSend_chunk task chunkText now st)) ! j) ! i)
           = Some False"
  using assms final_keeps_finished [OF assms]
  by (simp add: autoSave_fields handleSend_chunk_def Let_def patchBot_keeps_finished)

lemma two_chats_state:
  "sessions (app (run two_chats_events fresh_world)) =
     [\<lparr>s_id = lit ''5000'', s_title = DEFAULT_TITLE, s_messages = [], s_updatedAt = 5000,
       s_lastModelId = None\<rparr>,
      \<lparr>s_id = lit ''1000'', s_title = lit ''first chat'',
       s_messages =
         [\<lparr>m_id = lit ''2000'', m_role = User, m_text = lit ''hi'', m_isStreaming = None,
           m_error = None, m_isHidden = Some False, m_attachments = Some [],
           m_modelId = Some Gemini_3_pro_preview\<rparr>,
          \<lparr>m_id = lit ''2001'', m_role = Model, m_text = lit ''a'', m_isStreaming = Some False,
           m_error = None, m_isHidden = None, m_attachments = None,
           m_modelId = Some Gemini_3_pro_preview\<rparr>],
       s_updatedAt = 6000, s_lastModelId = None\<rparr>]"
  by (simp add: two_chats_events_def eval_defs chat_defs)

lemma descending_iff:
  "sorted (map (\<lambda>s. - s_updatedAt s) xs) \<longleftrightarrow> sorted_wrt (\<lambda>a b. b \<le> a) (map s_updatedAt xs)"
  by (simp add: sorted_wrt_map)

lemma summary_afterJSON: "session_summary (ChatSession_afterJSON s) = session_summary s"
  by (simp add: session_summary_def afterJSON_fields)

lemma filter_afterJSON:
  "filter (\<lambda>s. s_updatedAt s = u) (map ChatSession_afterJSON xs)
     = map ChatSession_afterJSON (filter (\<lambda>s. s_updatedAt s = u) xs)"
  by (simp add: filter_map o_def afterJSON_fields)

lemma filter_sorted_sessions:
  "filter (\<lambda>s. s_updatedAt s = u) (sortByUpdatedAtDesc xs) = filter (\<lambda>s. s_updatedAt s = u) xs"
  using sort_key_stable [of "\<lambda>s. - s_updatedAt s" "- u" xs]
  by (simp add: sortByUpdatedAtDesc_def)

lemma sort_two:
  "s_updatedAt a < s_updatedAt b \<Longrightarrow> sortByUpdatedAtDesc [a, b] = rev [a, b]"
  by (simp add: sortByUpdatedAtDesc_def)



lemma stopped_world_lengths:
  "0 < length (sessions (app (step Stop streaming_world)))"
  "1 < length (s_messages (sessions (app (step Stop streaming_world)) ! 0))"
  by (simp_all add: streaming_world_def eval_defs chat_defs)

lemma sorted_chats_state:
  "map s_updatedAt (sessions (app (run sorted_chats_events fresh_world))) = [5000, 2001]"
  "map session_summary (sessions (app (run sorted_chats_events fresh_world)))
     = [(lit ''5000'', [], []), (lit ''1000'', [lit ''2000'', lit ''2001''], [lit ''hi'', lit ''a''])]"
  by (simp_all add: sorted_chats_events_def session_summary_def eval_defs chat_defs)

section \<open>The claims\<close>

subsection \<open>C1\<close>

text \<open>
  C1. What \<open>handleResend\<close> does on a session holding a user message \<open>hi\<close> and its
  finished answer \<open>a\<close>, when message 0 is resent: \<open>handleSend\<close> appends to the
  \<open>messages\<close> of the render, which still holds both, and its updater replaces the
  truncated list queued just before. The session ends up with four messages, the two old
  ones followed by the new user message and its placeholder, where truncating at 0 and
  sending again would leave two. (\<open>handleResend_sessions\<close> has the general fact.)
\<close>

theorem C1_resend_keeps_tail:
  "map m_text (messages (app (run resend_events fresh_world))) = [lit ''hi'', lit ''a'', lit ''hi'', []]
   \<and> map m_id (messages (app (run resend_events fresh_world)))
       = [lit ''2000'', lit ''2001'', lit ''3001'', lit ''3002'']"
  by (simp add: resend_events_def eval_defs chat_defs)

subsection \<open>C2\<close>

text \<open>
  C2, as stated, fails. With the second chunk held back by the throttle, the accumulated
  buffer is \<open>ab\<close> while the placeholder shows \<open>a\<close>; \<open>handleStop\<close> makes it \<open>a...\<close>,
  not \<open>ab...\<close>. When the next chunk lets the loop see the flag, the final update sets
  the text to \<open>ab\<close>, without the marker.
\<close>

theorem C2_counterexample:
  "map m_text (messages (app (run stop_events fresh_world))) = [lit ''hi'', lit ''a...'']
   \<and> map_option t_fullText (taskAt (run stop_events fresh_world) 0) = Some (lit ''ab'')
   \<and> map m_text (messages (app (run (stop_events @ [StreamChunk 0 (Some (lit ''c'')) 2200]) fresh_world)))
       = [lit ''hi'', lit ''ab'']"
  by (simp add: stop_events_def eval_defs chat_defs)

text \<open>
  C2, amended. When the user stops, on the latest render, while a message of the active
  session is streaming, the stop flag is set and that message at once has
  \<open>isStreaming = false\<close> and, as text, the text it had in the session state followed by
  \<open>...\<close>. The flag stays set through every later event that is neither a send nor a
  resend (\<open>handleSend\<close> sets it back), and as long as it is set, the next chunk of any
  stream ends that stream's loop. And no step of the continuation of a send (a chunk, the
  final update, the \<open>catch\<close> block), in whatever state it runs, changes
  \<open>isStreaming = false\<close> on a message.
\<close>

theorem C2_stop_finalizes:
  assumes "currentSessionId (app w) = Some c" and "c \<noteq> []"
    and "j < length (sessions (app w))" and "s_id (sessions (app w) ! j) = c"
    and "i < length (s_messages (sessions (app w) ! j))"
    and "ph = s_messages (sessions (app w) ! j) ! i" and "m_isStreaming ph = Some True"
    and "w' = step Stop w"
    and "list_all no_send evs"
  shows "stopGenerationRef (app w')
       \<and> m_isStreaming (s_messages (sessions (app w') ! j) ! i) = Some False
       \<and> m_text (s_messages (sessions (app w') ! j) ! i) = m_text ph @ lit ''...''
       \<and> stopGenerationRef (app (run evs w'))
       \<and> taskAt (step (StreamChunk k chunkText now) (run evs w')) k = None
       \<and> (j2 < length (sessions st2) \<and> i2 < length (s_messages (sessions st2 ! j2))
           \<and> m_isStreaming (s_messages (sessions st2 ! j2) ! i2) = Some False \<longrightarrow>
             m_isStreaming (s_messages (sessions (fst (handleSend_chunk task chunkText now st2)) ! j2) ! i2)
               = Some False
             \<and> m_isStreaming (s_messages (sessions (handleSend_final task st2) ! j2) ! i2) = Some False
             \<and> m_isStreaming (s_messages (sessions (handleSend_catch task err st2) ! j2) ! i2)
                 = Some False)"
proof -
  have flag: "stopGenerationRef (app w')"
    unfolding assms(8) by (simp add: autoSave_fields handleStop_flags)
  have fin: "m_isStreaming (s_messages (sessions (app w') ! j) ! i) = Some False"
    and mark: "m_text (s_messages (sessions (app w') ! j) ! i) = m_text ph @ lit ''...''"
    unfolding assms(8) using assms(3-7)
    by (simp_all add: autoSave_fields handleStop_sessions [OF assms(1,2)] streaming_def)
  have later: "stopGenerationRef (app (run evs w'))"
    using flag assms(9) by (rule run_keeps_flag)
  from flag fin mark later chunk_ends_loop [OF later]
       chunk_keeps_finished final_keeps_finished catch_keeps_finished
  show ?thesis by simp
qed

theorem C2_stop_finalizes_witness:
  "m_isStreaming (s_messages (sessions (app streaming_world) ! 0) ! 1) = Some True
   \<and> m_isStreaming (s_messages (sessions (app (step Stop streaming_world)) ! 0) ! 1) = Some False
   \<and> m_text (s_messages (sessions (app (step Stop streaming_world)) ! 0) ! 1) = lit ''a...''
   \<and> list_all no_send [EditTitle (lit ''greeting'') 2300]
   \<and> taskAt (run [EditTitle (lit ''greeting'') 2300] (step Stop streaming_world)) 0 \<noteq> None
   \<and> taskAt (step (StreamChunk 0 (Some (lit ''b'')) 2400)
               (run [EditTitle (lit ''greeting'') 2300] (step Stop streaming_world))) 0 = None
   \<and> m_isStreaming (s_messages (sessions (fst (handleSend_chunk (sending_task Gemini_3_pro_preview)
         (Some (lit ''b'')) 2400 (app (step Stop streaming_world)))) ! 0) ! 1) = Some False
   \<and> m_isStreaming (s_messages (sessions (handleSend_final (sending_task Gemini_3_pro_preview)
         (app (step Stop streaming_world))) ! 0) ! 1) = Some False
   \<and> m_isStreaming (s_messages (sessions (handleSend_catch (sending_task Gemini_3_pro_preview)
         quota_error (app (step Stop streaming_world))) ! 0) ! 1) = Some False"
proof -
  have len: "length (sessions (app streaming_world)) = 1"
    "length (s_messages (sessions (app streaming_world) ! 0)) = 2"
    using streaming_world_simps(3) streaming_world_simps(1)
    by (metis length_map length_Cons list.size(3) One_nat_def numeral_2_eq_2)+
  have 3: "0 < length (sessions (app streaming_world))" using len by simp
  have 4: "s_id (sessions (app streaming_world) ! 0) = lit ''1000''"
    using streaming_world_simps(3) 3 by (metis nth_map nth_Cons_0)
  have 5: "1 < length (s_messages (sessions (app streaming_world) ! 0))" using len by simp
  have 7: "m_isStreaming (s_messages (sessions (app streaming_world) ! 0) ! 1) = Some True"
    using streaming_world_simps(2) 5 by (metis nth_map nth_Cons_0 nth_Cons_Suc One_nat_def)
  have t: "m_text (s_messages (sessions (app streaming_world) ! 0) ! 1) = lit ''a''"
    using streaming_world_simps(1) 5 by (metis nth_map nth_Cons_0 nth_Cons_Suc One_nat_def)
  have 9: "list_all no_send [EditTitle (lit ''greeting'') 2300]" by simp
  have pending: "taskAt (run [EditTitle (lit ''greeting'') 2300] (step Stop streaming_world)) 0 \<noteq> None"
    by (simp add: streaming_world_def eval_defs chat_defs)
  note th = C2_stop_finalizes [OF streaming_world_simps(4) lit_1000 3 4 5 refl 7 refl 9,
          of 0 "Some (lit ''b'')" 2400 0 "app (step Stop streaming_world)" 1
             "sending_task Gemini_3_pro_preview" quota_error]
  note a = th [THEN conjunct2, THEN conjunct1]
  note b = th [THEN conjunct2, THEN conjunct2, THEN conjunct1]
  note c = th [THEN conjunct2, THEN conjunct2, THEN conjunct2, THEN conjunct2, THEN conjunct1]
  note d = th [THEN conjunct2, THEN conjunct2, THEN conjunct2, THEN conjunct2, THEN conjunct2,
               THEN mp, OF conjI [OF stopped_world_lengths(1) conjI [OF stopped_world_lengths(2) a]]]
  have "lit ''a'' @ lit ''...'' = lit ''a...''" by (simp add: lit_def)
  with b t have b': "m_text (s_messages (sessions (app (step Stop streaming_world)) ! 0) ! 1) = lit ''a...''"
    by (simp only:)
  from 7 a b' 9 pending c d [THEN conjunct1] d [THEN conjunct2, THEN conjunct1]
       d [THEN conjunct2, THEN conjunct2]
  show ?thesis by (intro conjI)
qed

subsection \<open>C3\<close>

text \<open>
  C3, as stated, fails: the \<open>catch\<close> block compares the \<open>selectedModel\<close> of the render
  that started the send, not the model selected when the error arrives, and the model menu
  stays usable in between. A send started with \<open>gemini-flash-lite-latest\<close>, with
  \<open>gemini-3-pro-preview\<close> selected when the quota error arrives: the selection stays
  and the placeholder gets the connection-error suffix. A send started with
  \<open>gemini-3-pro-preview\<close>, with \<open>gemini-flash-lite-latest\<close> selected when the error
  arrives: the selection becomes \<open>gemini-2.5-flash\<close> and the placeholder gets the notice.
\<close>

theorem C3_counterexample:
  "selectedModel (app (run late_pro_events fresh_world)) = Gemini_3_pro_preview
   \<and> selectedModel (app (run (late_pro_events @ [StreamThrow 0 quota_error]) fresh_world))
       = Gemini_3_pro_preview
   \<and> map m_text (messages (app (run (late_pro_events @ [StreamThrow 0 quota_error]) fresh_world)))
       = [lit ''hi'', 0x0A # lit ''(Connection Error: 429 Too Many Requests)'']
   \<and> selectedModel (app (run late_lite_events fresh_world)) = Gemini_flash_lite_latest
   \<and> selectedModel (app (run (late_lite_events @ [StreamThrow 0 quota_error]) fresh_world))
       = Gemini_2_5_flash
   \<and> map m_text (messages (app (run (late_lite_events @ [StreamThrow 0 quota_error]) fresh_world)))
       = [lit ''hi'', QUOTA_NOTICE]"
  by (simp add: late_pro_events_def late_lite_events_def quota_error_def isQuotaError_def
        eval_defs chat_defs)

text \<open>
  C3, amended. Take a send started in render \<open>r\<close>, its continuation (the task
  \<open>handleSend\<close> returned, with any values of the loop's \<open>fullText\<close> and
  \<open>lastUpdateTime\<close>), an error whose message contains \<open>429\<close>, \<open>quota\<close> or
  \<open>exhausted\<close>, and the placeholder of the send in the state \<open>st\<close> in which the
  \<open>catch\<close> block runs, whatever model is selected there. If \<open>gemini-3-pro-preview\<close>
  was selected in \<open>r\<close>, the selection becomes \<open>gemini-2.5-flash\<close>, the placeholder's
  text becomes the fixed notice, \<open>error\<close> is true and \<open>isStreaming\<close> false. If any
  other model was selected in \<open>r\<close>, the selection stays what it is in \<open>st\<close>, and the
  placeholder gets the connection-error suffix after its text, \<open>error\<close> true and
  \<open>isStreaming\<close> false. (\<open>handleSend_chunk_task\<close>: a chunk changes the loop's locals of
  the task only.)
\<close>

theorem C3_quota_fallback:
  assumes "snd (handleSend r text attachments clock st0) = Some task0"
    and "task = task0\<lparr>t_fullText := ft, t_lastUpdateTime := lu\<rparr>"
    and "j < length (sessions st)"
    and "Some (s_id (sessions st ! j)) = currentSessionId r"
    and "i < length (s_messages (sessions st ! j))"
    and "m_id (s_messages (sessions st ! j) ! i) = botMessageId clock"
    and "e_message err = Some msg"
    and "includes_str msg (lit ''429'') \<or> includes_str msg (lit ''quota'')
         \<or> includes_str msg (lit ''exhausted'')"
    and "st' = handleSend_catch task err st"
    and "ph = s_messages (sessions st ! j) ! i"
    and "ph' = s_messages (sessions st' ! j) ! i"
  shows "(selectedModel r = Gemini_3_pro_preview \<longrightarrow>
            selectedModel st' = Gemini_2_5_flash \<and> m_text ph' = QUOTA_NOTICE
            \<and> m_error ph' = Some True \<and> m_isStreaming ph' = Some False)
       \<and> (selectedModel r \<noteq> Gemini_3_pro_preview \<longrightarrow>
            selectedModel st' = selectedModel st
            \<and> m_text ph' = m_text ph @ [0x0A] @ lit ''(Connection Error: '' @ msg @ lit '')''
            \<and> m_error ph' = Some True \<and> m_isStreaming ph' = Some False)"
proof -
  have t0: "task0 = initialTask r clock" using assms(1) by (rule handleSend_task)
  have t: "t_currentSessionId task = currentSessionId r" "t_botMessageId task = botMessageId clock"
    "t_selectedModel task = selectedModel r"
    unfolding assms(2) t0 by (simp_all add: initialTask_def)
  have q: "isQuotaError err" using assms(7,8) by (simp add: isQuotaError_def)
  have ne: "msg \<noteq> []"
    using assms(8) includes_str_nonempty quota_words_nonempty by blast
  show ?thesis
  proof (cases "selectedModel r = Gemini_3_pro_preview")
    case True
    then show ?thesis
      unfolding assms(9,10,11) using q assms(3-6) t
      by (simp add: handleSend_catch_def Let_def patchBot_message)
  next
    case False
    then show ?thesis
      unfolding assms(9,10,11) using q ne assms(3-7) t
      by (simp add: handleSend_catch_def Let_def patchBot_message)
  qed
qed

theorem C3_quota_fallback_witness:
  "selectedModel (handleSend_catch (sending_task Gemini_3_pro_preview) quota_error
                    ((sending_state Gemini_3_pro_preview)\<lparr>selectedModel := Gemini_flash_lite_latest\<rparr>))
     = Gemini_2_5_flash
   \<and> m_text (s_messages (sessions (handleSend_catch (sending_task Gemini_3_pro_preview) quota_error
              ((sending_state Gemini_3_pro_preview)\<lparr>selectedModel := Gemini_flash_lite_latest\<rparr>)) ! 0) ! 1)
       = QUOTA_NOTICE
   \<and> m_error (s_messages (sessions (handleSend_catch (sending_task Gemini_3_pro_preview) quota_error
              ((sending_state Gemini_3_pro_preview)\<lparr>selectedModel := Gemini_flash_lite_latest\<rparr>)) ! 0) ! 1)
       = Some True
   \<and> selectedModel (handleSend_catch (sending_task Gemini_flash_lite_latest) quota_error
                      ((sending_state Gemini_flash_lite_latest)\<lparr>selectedModel := Gemini_3_pro_preview\<rparr>))
       = Gemini_3_pro_preview
   \<and> m_text (s_messages (sessions (handleSend_catch (sending_task Gemini_flash_lite_latest) quota_error
              ((sending_state Gemini_flash_lite_latest)\<lparr>selectedModel := Gemini_3_pro_preview\<rparr>)) ! 0) ! 1)
       = [0x0A] @ lit ''(Connection Error: 429 Too Many Requests)''"
proof -
  have 2: "sending_task model = (sending_task model)\<lparr>t_fullText := [], t_lastUpdateTime := 0\<rparr>"
    for model by (simp add: sending_task_def initialTask_def)
  have 3: "0 < length (sessions ((sending_state model)\<lparr>selectedModel := m2\<rparr>))" for model m2
    by (simp add: sending_state_simps)
  have 4: "Some (s_id (sessions ((sending_state model)\<lparr>selectedModel := m2\<rparr>) ! 0))
            = currentSessionId (fresh_state\<lparr>selectedModel := model\<rparr>)" for model m2
    by (simp add: sending_state_simps fresh_state_simps)
  have 5: "1 < length (s_messages (sessions ((sending_state model)\<lparr>selectedModel := m2\<rparr>) ! 0))"
    for model m2 by (simp add: sending_state_simps)
  have 6: "m_id (s_messages (sessions ((sending_state model)\<lparr>selectedModel := m2\<rparr>) ! 0) ! 1)
            = botMessageId (example_clock 2000)" for model m2
    by (simp add: sending_state_simps botMessageId_def example_clock_def toString_def
          digits.simps lit_def)
  have 7: "e_message quota_error = Some (lit ''429 Too Many Requests'')"
    by (simp add: quota_error_def)
  have 8: "includes_str (lit ''429 Too Many Requests'') (lit ''429'')
           \<or> includes_str (lit ''429 Too Many Requests'') (lit ''quota'')
           \<or> includes_str (lit ''429 Too Many Requests'') (lit ''exhausted'')"
    by (simp add: lit_def)
  from C3_quota_fallback [OF sending_snd 2 3 4 5 6 7 8 refl refl refl,
          of Gemini_3_pro_preview Gemini_flash_lite_latest]
       C3_quota_fallback [OF sending_snd 2 3 4 5 6 7 8 refl refl refl,
          of Gemini_flash_lite_latest Gemini_3_pro_preview]
  show ?thesis
    by (simp add: sending_state_simps lit_def)
qed

subsection \<open>C4\<close>

text \<open>
  C4, as stated, fails: the updater looks for the first message whose role is \<open>user\<close>
  and does not read \<open>isHidden\<close>. On an empty session with the default title, given a
  hidden user message \<open>secret\<close> followed by a visible one \<open>hello\<close>, the title becomes
  \<open>secret\<close>. (\<open>hidden_title_run\<close> shows a page reaching such a call.)
\<close>

theorem C4_counterexample:
  "s_title (hd (sessions (updateCurrentMessages fresh_state hidden_first 2000 fresh_state))) = lit ''secret''
   \<and> s_title (hd (sessions (updateCurrentMessages fresh_state hidden_first 2000 fresh_state))) \<noteq> lit ''hello''"
  by (simp add: updateCurrentMessages_sessions [OF fresh_state_simps(2) lit_1000] fresh_state_simps(3)
        derivedTitle_def default_title_New_Chat hidden_first_def, simp add: lit_def)

text \<open>
  C4, amended. When \<open>updateCurrentMessages\<close> replaces the messages of a session that had
  none and whose title contains \<open>New Chat\<close> (as the default title does), the new title
  comes from the first message of role \<open>user\<close>, hidden or not: its first 30 code units
  followed by \<open>...\<close> when its text is longer than 30, and its text unchanged otherwise.
\<close>

theorem C4_title_from_first_user_message:
  assumes "currentSessionId r = Some c" and "c \<noteq> []"
    and "i < length (sessions st)" and "s_id (sessions st ! i) = c"
    and "s_messages (sessions st ! i) = []"
    and "includes_str (s_title (sessions st ! i)) (lit ''New Chat'')"
    and "newMessages = pre @ firstMsg # post"
    and "\<forall>m\<in>set pre. m_role m \<noteq> User" and "m_role firstMsg = User"
  shows "s_messages (sessions (updateCurrentMessages r newMessages now st) ! i) = newMessages
       \<and> s_title (sessions (updateCurrentMessages r newMessages now st) ! i) =
           (if length (m_text firstMsg) > 30 then take 30 (m_text firstMsg) @ lit ''...''
            else m_text firstMsg)"
proof -
  have f: "find (\<lambda>m. m_role m = User) newMessages = Some firstMsg"
    unfolding assms(7) using assms(8,9) by (intro find_first) auto
  have ne: "newMessages \<noteq> []" using assms(7) by simp
  show ?thesis
    using assms(3-6) f ne
    by (simp add: updateCurrentMessages_sessions [OF assms(1,2)] derivedTitle_def)
qed

theorem C4_title_from_first_user_message_witness:
  "s_title (sessions (updateCurrentMessages fresh_state hidden_first 2000 fresh_state) ! 0) = lit ''secret''"
proof -
  have 1: "(0::nat) < length (sessions fresh_state)" by (simp add: fresh_state_simps)
  have 2: "s_id (sessions fresh_state ! 0) = lit ''1000''" by (simp add: fresh_state_simps)
  have 3: "s_messages (sessions fresh_state ! 0) = []" by (simp add: fresh_state_simps)
  have 4: "includes_str (s_title (sessions fresh_state ! 0)) (lit ''New Chat'')"
    by (simp add: fresh_state_simps default_title_New_Chat)
  have 5: "hidden_first = [] @ hd hidden_first # tl hidden_first" by (simp add: hidden_first_def)
  have 6: "\<forall>m\<in>set []. m_role m \<noteq> User" by simp
  have 7: "m_role (hd hidden_first) = User" by (simp add: hidden_first_def)
  have 8: "m_text (hd hidden_first) = lit ''secret''" by (simp add: hidden_first_def)
  from C4_title_from_first_user_message [OF fresh_state_simps(2) lit_1000 1 2 3 4 5 6 7, of 2000]
  show ?thesis by (simp add: 8 lit_def)
qed

subsection \<open>C5\<close>

text \<open>
  C5, as stated, fails: the mount effect sorts what it loads by \<open>updatedAt\<close>, newest
  first, and the list of a running page is not kept in that order. After
  \<open>reorder_events\<close> the list is 2000, 1000; exported, imported and reloaded, it is
  1000, 2000.
\<close>

theorem C5_counterexample:
  "session_ids (app (run reorder_events fresh_world)) = [lit ''2000'', lit ''1000'']
   \<and> map_option session_ids (exportImportReload 9000 9000 (app (run reorder_events fresh_world)))
       = Some [lit ''1000'', lit ''2000'']"
proof -
  have ne: "sessions (app (run reorder_events fresh_world)) \<noteq> []"
    by (simp add: reorder_state)
  from exportImportReload_sessions [OF ne, of 9000 9000]
  show ?thesis
    by (auto simp add: session_ids_def afterJSON_fields reorder_state sortByUpdatedAtDesc_def)
qed

text \<open>
  C5, amended. For a non-empty session list, export, import of the exported file and the
  reload give a list in descending order of \<open>updatedAt\<close>, in which, for every value
  \<open>u\<close>, the sessions with \<open>updatedAt = u\<close> are those of the exported list, in their
  old order, each with its id and its message ids and message texts in message order.
  When the exported list was in descending order of \<open>updatedAt\<close> already, the result has
  the same sessions in the same order, with the same ids, message ids and texts.
\<close>

theorem C5_roundtrip_sorted:
  assumes "sessions st \<noteq> []"
  shows "\<exists>st'. loadSessions now_id now_upd (pageLoad (handleImport (Some (handleExport st)) st)) = Some st'
     \<and> sorted_wrt (\<lambda>a b. b \<le> a) (map s_updatedAt (sessions st'))
     \<and> map session_summary (filter (\<lambda>s. s_updatedAt s = u) (sessions st'))
         = map session_summary (filter (\<lambda>s. s_updatedAt s = u) (sessions st))
     \<and> (sorted_wrt (\<lambda>a b. b \<le> a) (map s_updatedAt (sessions st)) \<longrightarrow>
           map session_summary (sessions st') = map session_summary (sessions st))"
proof -
  from exportImportReload_sessions [OF assms, of now_id now_upd]
  obtain st' where st':
    "loadSessions now_id now_upd (pageLoad (handleImport (Some (handleExport st)) st)) = Some st'"
    "sessions st' = map ChatSession_afterJSON (sortByUpdatedAtDesc (sessions st))"
    unfolding exportImportReload_def by blast
  have "sorted (map (\<lambda>s. - s_updatedAt s) (sortByUpdatedAtDesc (sessions st)))"
    unfolding sortByUpdatedAtDesc_def by (rule sorted_sort_key)
  then have "sorted_wrt (\<lambda>a b. b \<le> a) (map s_updatedAt (sortByUpdatedAtDesc (sessions st)))"
    by (simp only: descending_iff)
  then have 1: "sorted_wrt (\<lambda>a b. b \<le> a) (map s_updatedAt (sessions st'))"
    by (simp add: st'(2) o_def afterJSON_fields)
  have 2: "map session_summary (filter (\<lambda>s. s_updatedAt s = u) (sessions st'))
         = map session_summary (filter (\<lambda>s. s_updatedAt s = u) (sessions st))"
    by (simp add: st'(2) filter_afterJSON filter_sorted_sessions o_def summary_afterJSON)
  have 3: "map session_summary (sessions st') = map session_summary (sessions st)"
    if "sorted_wrt (\<lambda>a b. b \<le> a) (map s_updatedAt (sessions st))"
  proof -
    from that have "sorted (map (\<lambda>s. - s_updatedAt s) (sessions st))"
      by (simp only: descending_iff)
    then have "sortByUpdatedAtDesc (sessions st) = sessions st"
      unfolding sortByUpdatedAtDesc_def by (rule sort_key_id_if_sorted)
    then show ?thesis by (simp add: st'(2) o_def summary_afterJSON)
  qed
  from st'(1) 1 2 3 show ?thesis by blast
qed

theorem C5_roundtrip_sorted_witness:
  "map session_summary (sessions (app (run two_chats_events fresh_world)))
     = [(lit ''5000'', [], []), (lit ''1000'', [lit ''2000'', lit ''2001''], [lit ''hi'', lit ''a''])]
   \<and> (\<exists>st'. loadSessions 9000 9000
               (pageLoad (handleImport (Some (handleExport (app (run two_chats_events fresh_world))))
                            (app (run two_chats_events fresh_world)))) = Some st'
          \<and> sorted_wrt (\<lambda>a b. b \<le> a) (map s_updatedAt (sessions st'))
          \<and> map session_summary (filter (\<lambda>s. s_updatedAt s = 6000) (sessions st'))
              = [(lit ''1000'', [lit ''2000'', lit ''2001''], [lit ''hi'', lit ''a''])]
          \<and> map session_summary (sessions st')
              = [(lit ''1000'', [lit ''2000'', lit ''2001''], [lit ''hi'', lit ''a'']),
                 (lit ''5000'', [], [])])
   \<and> map s_updatedAt (sessions (app (run sorted_chats_events fresh_world))) = [5000, 2001]
   \<and> (\<exists>st'. loadSessions 9000 9000
               (pageLoad (handleImport (Some (handleExport (app (run sorted_chats_events fresh_world))))
                            (app (run sorted_chats_events fresh_world)))) = Some st'
          \<and> map session_summary (sessions st')
              = [(lit ''5000'', [], []),
                 (lit ''1000'', [lit ''2000'', lit ''2001''], [lit ''hi'', lit ''a''])])"
proof -
  let ?st = "app (run two_chats_events fresh_world)"
  have ne: "sessions ?st \<noteq> []" by (simp add: two_chats_state)
  have before: "map session_summary (sessions ?st)
     = [(lit ''5000'', [], []), (lit ''1000'', [lit ''2000'', lit ''2001''], [lit ''hi'', lit ''a''])]"
    by (simp add: two_chats_state session_summary_def)
  from C5_roundtrip_sorted [OF ne, of 9000 9000 6000]
  obtain st' where st':
    "loadSessions 9000 9000 (pageLoad (handleImport (Some (handleExport ?st)) ?st)) = Some st'"
    "sorted_wrt (\<lambda>a b. b \<le> a) (map s_updatedAt (sessions st'))"
    "map session_summary (filter (\<lambda>s. s_updatedAt s = 6000) (sessions st'))
       = map session_summary (filter (\<lambda>s. s_updatedAt s = 6000) (sessions ?st))"
    by blast
  from exportImportReload_sessions [OF ne, of 9000 9000] st'(1)
  have all: "sessions st' = map ChatSession_afterJSON (sortByUpdatedAtDesc (sessions ?st))"
    by (simp add: exportImportReload_def)
  have after: "map session_summary (sessions st')
     = [(lit ''1000'', [lit ''2000'', lit ''2001''], [lit ''hi'', lit ''a'']), (lit ''5000'', [], [])]"
  proof -
    have "sortByUpdatedAtDesc (sessions ?st) = rev (sessions ?st)"
      unfolding two_chats_state by (rule sort_two) simp
    then have "map session_summary (sessions st') = rev (map session_summary (sessions ?st))"
      by (simp add: all o_def summary_afterJSON rev_map)
    then show ?thesis by (simp only: before rev.simps append.simps)
  qed
  have at6000: "map session_summary (filter (\<lambda>s. s_updatedAt s = 6000) (sessions st'))
              = [(lit ''1000'', [lit ''2000'', lit ''2001''], [lit ''hi'', lit ''a''])]"
    unfolding st'(3) by (simp add: two_chats_state session_summary_def)
  have first: "\<exists>st'. loadSessions 9000 9000 (pageLoad (handleImport (Some (handleExport ?st)) ?st)) = Some st'
          \<and> sorted_wrt (\<lambda>a b. b \<le> a) (map s_updatedAt (sessions st'))
          \<and> map session_summary (filter (\<lambda>s. s_updatedAt s = 6000) (sessions st'))
              = [(lit ''1000'', [lit ''2000'', lit ''2001''], [lit ''hi'', lit ''a''])]
          \<and> map session_summary (sessions st')
              = [(lit ''1000'', [lit ''2000'', lit ''2001''], [lit ''hi'', lit ''a'']),
                 (lit ''5000'', [], [])]"
    using st'(1,2) at6000 after by (intro conjI exI [of _ st'])
  let ?so = "app (run sorted_chats_events fresh_world)"
  have ne2: "sessions ?so \<noteq> []" using sorted_chats_state(1) by auto
  have desc: "sorted_wrt (\<lambda>a b. b \<le> a) (map s_updatedAt (sessions ?so))"
    unfolding sorted_chats_state(1) by simp
  from C5_roundtrip_sorted [OF ne2, of 9000 9000 0]
  obtain st2 where st2:
    "loadSessions 9000 9000 (pageLoad (handleImport (Some (handleExport ?so)) ?so)) = Some st2"
    "sorted_wrt (\<lambda>a b. b \<le> a) (map s_updatedAt (sessions ?so)) \<longrightarrow>
       map session_summary (sessions st2) = map session_summary (sessions ?so)"
    by blast
  from st2(2) desc have "map session_summary (sessions st2) = map session_summary (sessions ?so)"
    by (rule mp)
  then have same: "map session_summary (sessions st2)
     = [(lit ''5000'', [], []), (lit ''1000'', [lit ''2000'', lit ''2001''], [lit ''hi'', lit ''a''])]"
    by (simp only: sorted_chats_state(2))
  have second: "\<exists>st'. loadSessions 9000 9000 (pageLoad (handleImport (Some (handleExport ?so)) ?so)) = Some st'
          \<and> map session_summary (sessions st')
              = [(lit ''5000'', [], []),
                 (lit ''1000'', [lit ''2000'', lit ''2001''], [lit ''hi'', lit ''a''])]"
    using st2(1) same by (intro conjI exI [of _ st2])
  from before first sorted_chats_state(1) second show ?thesis by (intro conjI)
qed

subsection \<open>C6\<close>

text \<open>
  C6, as stated, fails where it says that the next most recent session becomes active.
  \<open>deleteSession\<close> activates the first remaining session of the list, and the list is
  not kept in the order of \<open>updatedAt\<close>: a rename or a message sets \<open>updatedAt\<close> and
  leaves the session where it is. After \<open>stale_order_events\<close>, deleting the active
  session 2000 activates session 3000 (updated at 3000), although session 1000 (updated
  at 4000) remains.
\<close>

theorem C6_counterexample:
  "currentSessionId (app (run (stale_order_events @ [DeleteSession (lit ''2000'') 5000 5000]) fresh_world))
     = Some (lit ''3000'')
   \<and> map s_id
         (sessions (app (run (stale_order_events @ [DeleteSession (lit ''2000'') 5000 5000]) fresh_world)))
     = [lit ''3000'', lit ''1000'']
   \<and> map s_updatedAt
         (sessions (app (run (stale_order_events @ [DeleteSession (lit ''2000'') 5000 5000]) fresh_world)))
     = [3000, 4000]"
  by (simp add: stale_order_events_def eval_defs)

text \<open>
  C6, amended. \<open>deleteSession\<close>, run from the latest render, writes the list without the
  sessions of that id to \<open>localStorage\<close> at once. If another session was active, the
  list without them is the new list and the active session stays. If the deleted session
  was active and sessions remain, the first remaining one in list order becomes active;
  it is a most recently updated one whenever the list was in descending order of
  \<open>updatedAt\<close>. If it was active and none remains, the new list is exactly one new
  session, with no messages and the default title, and that session is active.
\<close>

theorem C6_deleteSession:
  assumes "rem = filter (\<lambda>s. s_id s \<noteq> ident) (sessions st)"
    and "st' = deleteSession st ident now_id now_upd st"
  shows "localStorage_sessions st' = Some (JSON_stringify (sessions_toJSON rem))
     \<and> (currentSessionId st \<noteq> Some ident \<longrightarrow>
          sessions st' = rem \<and> currentSessionId st' = currentSessionId st)
     \<and> (currentSessionId st = Some ident \<and> rem \<noteq> [] \<longrightarrow>
          sessions st' = rem \<and> currentSessionId st' = Some (s_id (hd rem))
          \<and> (sorted (map (\<lambda>s. - s_updatedAt s) (sessions st)) \<longrightarrow>
               (\<forall>s\<in>set rem. s_updatedAt s \<le> s_updatedAt (hd rem))))
     \<and> (currentSessionId st = Some ident \<and> rem = [] \<longrightarrow>
          (\<exists>new. sessions st' = [new] \<and> currentSessionId st' = Some (s_id new)
                 \<and> s_messages new = [] \<and> s_title new = DEFAULT_TITLE))"
proof -
  have a: "localStorage_sessions st' = Some (JSON_stringify (sessions_toJSON rem))"
    unfolding assms by (simp add: deleteSession_def createNewSession_def resetChatSession_def Let_def)
  have b: "currentSessionId st \<noteq> Some ident \<longrightarrow>
          sessions st' = rem \<and> currentSessionId st' = currentSessionId st"
    unfolding assms by (simp add: deleteSession_def Let_def)
  have c: "currentSessionId st = Some ident \<and> rem \<noteq> [] \<longrightarrow>
          sessions st' = rem \<and> currentSessionId st' = Some (s_id (hd rem))"
    unfolding assms by (simp add: deleteSession_def Let_def)
  have d: "sorted (map (\<lambda>s. - s_updatedAt s) (sessions st)) \<longrightarrow>
               (\<forall>s\<in>set rem. s_updatedAt s \<le> s_updatedAt (hd rem))"
  proof (intro impI ballI)
    fix s assume srt: "sorted (map (\<lambda>s. - s_updatedAt s) (sessions st))" and s: "s \<in> set rem"
    from srt have "sorted (map (\<lambda>s. - s_updatedAt s) rem)"
      unfolding assms(1) by (rule sorted_filter)
    from sorted_hd_max [OF this s] show "s_updatedAt s \<le> s_updatedAt (hd rem)" by simp
  qed
  have e: "currentSessionId st = Some ident \<and> rem = [] \<longrightarrow>
          (\<exists>new. sessions st' = [new] \<and> currentSessionId st' = Some (s_id new)
                 \<and> s_messages new = [] \<and> s_title new = DEFAULT_TITLE)"
    unfolding assms by (simp add: deleteSession_def createNewSession_def resetChatSession_def Let_def)
  from a b c d e show ?thesis by blast
qed

theorem C6_deleteSession_witness:
  "(\<exists>new. sessions (deleteSession fresh_state (lit ''1000'') 5000 5000 fresh_state) = [new]
      \<and> currentSessionId (deleteSession fresh_state (lit ''1000'') 5000 5000 fresh_state) = Some (s_id new)
      \<and> s_messages new = [] \<and> s_title new = DEFAULT_TITLE)
   \<and> localStorage_sessions (deleteSession fresh_state (lit ''1000'') 5000 5000 fresh_state)
       = Some (JSON_stringify (sessions_toJSON []))"
proof -
  have r: "[] = filter (\<lambda>s. s_id s \<noteq> lit ''1000'') (sessions fresh_state)"
    by (simp add: fresh_state_simps)
  from C6_deleteSession [OF r refl, of 5000 5000]
  show ?thesis by (simp add: fresh_state_simps)
qed

subsection \<open>C7\<close>




subsection \<open>C8\<close>

text \<open>
  C8. With no credential configured (\<open>userSettings\<close> is \<open>null\<close> or its \<open>apiKey\<close> is
  empty), \<open>handleSend\<close> returns at once: the whole state, sessions and network calls
  included, is what it was, and no continuation is left. And \<open>sendMessageStream\<close> called
  with an empty credential throws \<open>API Key is required\<close>, whatever its other arguments,
  before the chat handle is looked up or a payload is built.
\<close>

theorem C8_no_credential:
  "((userSettings r = None \<or> (\<exists>us. userSettings r = Some us \<and> apiKey us = [])) \<longrightarrow>
      handleSend r text attachments clock st = (st, None))
   \<and> sendMessageStream message atts modelId [] st
       = Inl \<lparr>e_message = Some (lit ''API Key is required'')\<rparr>"
  by (auto simp add: handleSend_def sendMessageStream_def)

theorem C8_no_credential_witness:
  "userSettings (fresh_state\<lparr>userSettings := None\<rparr>) = None
   \<and> handleSend (fresh_state\<lparr>userSettings := None\<rparr>) (lit ''hi'') (Files [])
        (example_clock 2000) (fresh_state\<lparr>userSettings := None\<rparr>)
       = (fresh_state\<lparr>userSettings := None\<rparr>, None)"
  using C8_no_credential [of "fresh_state\<lparr>userSettings := None\<rparr>" "lit ''hi''" "Files []"
      "example_clock 2000" "fresh_state\<lparr>userSettings := None\<rparr>"]
  by simp

subsection \<open>C9\<close>

text \<open>
  C9. \<open>handleImport\<close> on a selected file: when the content parses to an array, whatever
  its elements are, the stored sessions document becomes that array, the page is
  reloaded and no notice is shown; when the content does not parse, or parses to a value
  that is no array, one notice is shown, the stored document is what it was and the page
  is not reloaded.
\<close>

theorem C9_import:
  "(JSON_parse content = Some (JArr xs) \<longrightarrow>
      localStorage_sessions (handleImport (Some content) st) = Some (JSON_stringify (JArr xs))
      \<and> reloads (handleImport (Some content) st) = Suc (reloads st)
      \<and> alerts (handleImport (Some content) st) = alerts st)
   \<and> ((JSON_parse content = None \<or> (\<exists>j. JSON_parse content = Some j \<and> \<not> isArray j)) \<longrightarrow>
      localStorage_sessions (handleImport (Some content) st) = localStorage_sessions st
      \<and> reloads (handleImport (Some content) st) = reloads st
      \<and> (\<exists>notice. alerts (handleImport (Some content) st) = alerts st @ [notice]))"
  by (auto simp add: handleImport_def)

theorem C9_import_witness:
  "localStorage_sessions (handleImport (Some (JSONText (JArr [JNum 5]))) fresh_state)
     = Some (JSON_stringify (JArr [JNum 5]))
   \<and> reloads (handleImport (Some (JSONText (JArr [JNum 5]))) fresh_state) = Suc (reloads fresh_state)
   \<and> localStorage_sessions (handleImport (Some (NotJSON (lit ''this is no JSON''))) fresh_state)
       = localStorage_sessions fresh_state
   \<and> localStorage_sessions (handleImport (Some (JSONText (JObj []))) fresh_state)
       = localStorage_sessions fresh_state"
  using C9_import [of "JSONText (JArr [JNum 5])" "[JNum 5]" fresh_state]
        C9_import [of "NotJSON (lit ''this is no JSON'')" "[]" fresh_state]
        C9_import [of "JSONText (JObj [])" "[]" fresh_state]
  by simp

subsection \<open>C10\<close>

text \<open>
  C10. The second parameter of \<open>handleSend\<close> is either the attachment list or the hidden
  flag. With a credential and a session id set, every session of that id ends with the
  two messages \<open>handleSend\<close> appends to the closure's \<open>messages\<close>; the first is the user
  message, with the given text. Called with a boolean, its \<open>isHidden\<close> is that boolean
  and its attachment list is empty; called with an array, \<open>isHidden\<close> is false and the
  attachments are the array. So it is never both hidden and carrying attachments.
\<close>

theorem C10_hidden_or_attachments:
  assumes "userSettings r = Some us" and "apiKey us \<noteq> []"
    and "currentSessionId r = Some c" and "c \<noteq> []"
    and "s \<in> set (sessions (fst (handleSend r text attachments clock st)))" and "s_id s = c"
  shows "\<exists>u b. s_messages s = messages r @ [u, b]
           \<and> m_role u = User \<and> m_text u = text
           \<and> (case attachments of
                 Flag h \<Rightarrow> m_isHidden u = Some h \<and> m_attachments u = Some []
               | Files fs \<Rightarrow> m_isHidden u = Some False \<and> m_attachments u = Some fs)
           \<and> \<not> (m_isHidden u = Some True \<and> m_attachments u \<noteq> Some [])"
proof -
  let ?u = "userMessage r text attachments clock"
  let ?b = "initialBotMessage r clock"
  have "s \<in> (\<lambda>s. if s_id s = c
               then s\<lparr>s_messages := messages r @ [?u, ?b],
                       s_title := derivedTitle s (messages r @ [?u]),
                       s_updatedAt := now_upd2 clock\<rparr>
               else s) ` set (sessions st)"
    using assms(5) unfolding handleSend_sessions [OF assms(1-4)] set_map .
  then obtain s0 where s0: "s = (if s_id s0 = c
               then s0\<lparr>s_messages := messages r @ [?u, ?b],
                       s_title := derivedTitle s0 (messages r @ [?u]),
                       s_updatedAt := now_upd2 clock\<rparr>
               else s0)"
    by blast
  have "s_messages s = messages r @ [?u, ?b]"
  proof (cases "s_id s0 = c")
    case True
    with s0 show ?thesis by simp
  next
    case False
    with s0 assms(6) show ?thesis by simp
  qed
  moreover have "m_role ?u = User" "m_text ?u = text"
    by (simp_all add: userMessage_def)
  moreover have "case attachments of
                 Flag h \<Rightarrow> m_isHidden ?u = Some h \<and> m_attachments ?u = Some []
               | Files fs \<Rightarrow> m_isHidden ?u = Some False \<and> m_attachments ?u = Some fs"
    by (simp add: userMessage_def hidden_def files_def split: SendArg.splits)
  moreover have "\<not> (m_isHidden ?u = Some True \<and> m_attachments ?u \<noteq> Some [])"
    by (simp add: userMessage_def hidden_def files_def split: SendArg.splits)
  ultimately show ?thesis by blast
qed

theorem C10_hidden_or_attachments_witness:
  "\<exists>u b. s_messages (hd (sessions (fst (handleSend fresh_state (lit ''quiz'') (Flag True)
                                         (example_clock 2000) fresh_state))))
            = messages fresh_state @ [u, b]
         \<and> m_isHidden u = Some True \<and> m_attachments u = Some []"
proof -
  let ?st = "fst (handleSend fresh_state (lit ''quiz'') (Flag True) (example_clock 2000) fresh_state)"
  have ss: "sessions ?st = [hd (sessions ?st)]" "s_id (hd (sessions ?st)) = lit ''1000''"
    by (simp_all add: handleSend_sessions [OF fresh_state_simps(1) example_key
            fresh_state_simps(2) lit_1000] fresh_state_simps(3))
  have 3: "hd (sessions ?st) \<in> set (sessions ?st)"
    using ss(1) by (metis list.set_intros(1))
  from C10_hidden_or_attachments [OF fresh_state_simps(1) example_key fresh_state_simps(2)
          lit_1000 3 ss(2)]
  show ?thesis by fastforce
qed

end
